theory Spec2Isabelle
  imports Main "HOL-Library.AList" "HOL-Library.Sublist"
begin

section \<open>JavaScript values\<close>

text \<open>
  Event payloads are the results of \<^verbatim>\<open>JSON.parse\<close>; a missing property reads as
  \<^verbatim>\<open>undefined\<close>. Numbers are restricted to integers (no claim depends on a
  fraction). A string is the list of the bytes of its UTF-8 encoding.
\<close>

datatype jsval =
    JUndefined
  | JNull
  | JBool bool
  | JNum int
  | JStr string
  | JArr "jsval list"
  | JObj "(string \<times> jsval) list"

text \<open>What \<^verbatim>\<open>if (v)\<close>, \<^verbatim>\<open>!v\<close> and \<^verbatim>\<open>v || d\<close> test.\<close>

fun truthy :: "jsval \<Rightarrow> bool" where
  "truthy JUndefined = False"
| "truthy JNull = False"
| "truthy (JBool b) = b"
| "truthy (JNum n) = (n \<noteq> 0)"
| "truthy (JStr s) = (s \<noteq> [])"
| "truthy (JArr xs) = True"
| "truthy (JObj kvs) = True"

definition js_or :: "jsval \<Rightarrow> jsval \<Rightarrow> jsval" where
  "js_or a b = (if truthy a then a else b)"

text \<open>\<^verbatim>\<open>typeof v === 'object'\<close>: true of \<^verbatim>\<open>null\<close>, of arrays and of objects.\<close>

fun typeof_object :: "jsval \<Rightarrow> bool" where
  "typeof_object JNull = True"
| "typeof_object (JArr xs) = True"
| "typeof_object (JObj kvs) = True"
| "typeof_object v = False"

text \<open>\<^verbatim>\<open>v == null\<close>: true of \<^verbatim>\<open>null\<close> and \<^verbatim>\<open>undefined\<close> only.\<close>

fun loosely_null :: "jsval \<Rightarrow> bool" where
  "loosely_null JUndefined = True"
| "loosely_null JNull = True"
| "loosely_null v = False"

fun isArray :: "jsval \<Rightarrow> bool" where
  "isArray (JArr xs) = True"
| "isArray v = False"

text \<open>
  \<^verbatim>\<open>String(v)\<close> and a template literal convert an object with its \<^verbatim>\<open>toString\<close>
  method. No parsed JSON value is a function, so an object with an own \<^verbatim>\<open>toString\<close> key
  has no callable one, and its conversion throws a \<^verbatim>\<open>TypeError\<close>; so does that of an
  array that holds such an object, since an array converts its elements.
\<close>

fun string_throws :: "jsval \<Rightarrow> bool" where
  "string_throws (JObj kvs) = (''toString'' \<in> fst ` set kvs)"
| "string_throws (JArr xs) = list_ex string_throws xs"
| "string_throws v = False"

text \<open>
  Reading the property \<open>k\<close> of a parsed JSON value, for a name \<open>k\<close> that no prototype
  defines (\<^verbatim>\<open>subagent_type\<close>, \<^verbatim>\<open>description\<close>, \<^verbatim>\<open>prompt\<close>).
\<close>

fun get_field :: "jsval \<Rightarrow> string \<Rightarrow> jsval" where
  "get_field (JObj kvs) k = (case map_of kvs k of Some v \<Rightarrow> v | None \<Rightarrow> JUndefined)"
| "get_field v k = JUndefined"

text \<open>Decimal digits of a natural number, as a template literal prints it.\<close>

function decimal :: "nat \<Rightarrow> string" where
  "decimal n = (if n < 10 then [''0123456789'' ! n] else decimal (n div 10) @ [''0123456789'' ! (n mod 10)])"
  by pat_completeness auto
termination
  by (relation "measure (\<lambda>n. n)") auto

declare decimal.simps [simp del]

text \<open>\<^verbatim>\<open>s.includes(t)\<close>: \<open>t\<close> occurs in \<open>s\<close> as a contiguous block.\<close>

fun str_includes :: "string \<Rightarrow> string \<Rightarrow> bool" where
  "str_includes [] t = (t = [])"
| "str_includes (c # cs) t = (prefix t (c # cs) \<or> str_includes cs t)"

text \<open>
  \<^verbatim>\<open>s.trim()\<close> removes white space and line terminators from both ends: U+0009 to
  U+000D, U+0020, U+00A0, U+1680, U+2000 to U+200A, U+2028, U+2029, U+202F, U+205F, U+3000
  and U+FEFF, here in their UTF-8 encoding.
\<close>

definition white_space :: "string list" where
  "white_space =
     [[CHR 0x09], [CHR 0x0A], [CHR 0x0B], [CHR 0x0C], [CHR 0x0D], [CHR 0x20],
      [CHR 0xC2, CHR 0xA0],
      [CHR 0xE1, CHR 0x9A, CHR 0x80],
      [CHR 0xE2, CHR 0x80, CHR 0x80], [CHR 0xE2, CHR 0x80, CHR 0x81],
      [CHR 0xE2, CHR 0x80, CHR 0x82], [CHR 0xE2, CHR 0x80, CHR 0x83],
      [CHR 0xE2, CHR 0x80, CHR 0x84], [CHR 0xE2, CHR 0x80, CHR 0x85],
      [CHR 0xE2, CHR 0x80, CHR 0x86], [CHR 0xE2, CHR 0x80, CHR 0x87],
      [CHR 0xE2, CHR 0x80, CHR 0x88], [CHR 0xE2, CHR 0x80, CHR 0x89],
      [CHR 0xE2, CHR 0x80, CHR 0x8A],
      [CHR 0xE2, CHR 0x80, CHR 0xA8], [CHR 0xE2, CHR 0x80, CHR 0xA9],
      [CHR 0xE2, CHR 0x80, CHR 0xAF],
      [CHR 0xE2, CHR 0x81, CHR 0x9F],
      [CHR 0xE3, CHR 0x80, CHR 0x80],
      [CHR 0xEF, CHR 0xBB, CHR 0xBF]]"

text \<open>Removing from the front of \<open>s\<close> every leading block that is one of \<open>ws\<close>.\<close>

function strip_start :: "string list \<Rightarrow> string \<Rightarrow> string" where
  "strip_start ws s =
     (case find (\<lambda>w. w \<noteq> [] \<and> prefix w s) ws of
        None \<Rightarrow> s
      | Some w \<Rightarrow> strip_start ws (drop (length w) s))"
  by pat_completeness auto
termination
proof (relation "measure (\<lambda>(ws, s). length s)")
  show "wf (measure (\<lambda>(ws, s). length s))"
    by simp
next
  fix ws :: "string list" and s w :: string
  assume "find (\<lambda>w. w \<noteq> [] \<and> prefix w s) ws = Some w"
  then have "w \<noteq> []" and "prefix w s"
    by (auto simp: find_Some_iff)
  then have "s \<noteq> []"
    by auto
  with \<open>w \<noteq> []\<close> show "((ws, drop (length w) s), (ws, s)) \<in> measure (\<lambda>(ws, s). length s)"
    by simp
qed

declare strip_start.simps [simp del]

definition trim :: "string \<Rightarrow> string" where
  "trim s = rev (strip_start (map rev white_space) (rev (strip_start white_space s)))"

text \<open>The outcome of an awaited request: \<open>Rejected e\<close> carries \<^verbatim>\<open>error.toString()\<close>.\<close>

datatype 'a outcome = Resolved 'a | Rejected string

section \<open>events.js: the stream decoder\<close>

text \<open>
  The wire shapes. A field that the code tests for truthiness or passes on unread is a
  \<^typ>\<open>jsval\<close>; a field that the code compares with a string literal is a
  \<^typ>\<open>string option\<close> (\<open>None\<close>: absent). The questions of a question request are
  typed as the wire contract gives them.
\<close>

record question =
  q_header :: "string option"
  q_question :: "string option"
  q_options :: "string list"
  q_multiple :: bool

record tool_state =
  st_status :: "string option"
  st_input :: jsval
  st_input_questions :: "question list option"
  st_output :: jsval
  st_title :: jsval
  st_error :: jsval

record part =
  part_type :: "string option"
  part_text :: jsval
  part_tool :: "string option"
  part_id :: "string option"
  part_state :: "tool_state option"
  part_reason :: jsval
  part_tokens :: jsval

record info =
  info_role :: "string option"
  info_finish :: jsval
  info_tokens :: jsval
  info_cost :: jsval

record properties =
  prop_part :: "part option"
  prop_delta :: jsval
  prop_info :: "info option"
  prop_id :: "string option"
  prop_questions :: "question list option"
  prop_error :: jsval

text \<open>
  The enhancement \<^verbatim>\<open>_subagent_parsed\<close> is typed as the renderer of a sub-agent panel reads
  it: lists of tool names and of file paths, each possibly absent, and a summary. (The
  renderer calls \<^verbatim>\<open>map\<close> on the lists and \<^verbatim>\<open>toLowerCase\<close> and \<^verbatim>\<open>split\<close> on their
  members; a value of another shape is outside this model.)
\<close>

record parsed_summary =
  ps_tools :: "string list option"
  ps_files_read :: "string list option"
  ps_files_written :: "string list option"
  ps_summary :: jsval

record sse_event =
  ev_type :: "string option"
  ev_properties :: "properties option"
  ev_is_subagent :: bool
  ev_subagent_type :: jsval
  ev_subagent_description :: jsval
  ev_subagent_parsed :: "parsed_summary option"

text \<open>
  What the callbacks of the \<^verbatim>\<open>EventSource\<close> receive: the connection opened, the
  connection failed, a message whose data is not JSON (or is \<^verbatim>\<open>null\<close>), a message
  with a parsed event.
\<close>

datatype frame = Opened | ConnError | Malformed | Message sse_event

text \<open>The four statuses that the two \<^verbatim>\<open>switch (status)\<close> statements name, and the rest.\<close>

datatype lifecycle = Pending | Running | Completed | Failed | Update

definition lifecycle_of :: "string option \<Rightarrow> lifecycle" where
  "lifecycle_of s =
     (if s = Some ''pending'' then Pending
      else if s = Some ''running'' then Running
      else if s = Some ''completed'' then Completed
      else if s = Some ''failed'' then Failed
      else Update)"

text \<open>
  The data objects handed to \<^verbatim>\<open>onEvent\<close>. Of \<^verbatim>\<open>subagentData\<close> the tool summary
  (\<^verbatim>\<open>parseTaskOutput\<close>, a text extraction by regular expressions) and of
  \<^verbatim>\<open>toolData\<close> the display category are left out: no handler below branches on them.
\<close>

record subagentData =
  sd_id :: string
  sd_status :: "string option"
  sd_subagentType :: jsval
  sd_description :: jsval
  sd_prompt :: jsval
  sd_output :: jsval
  sd_title :: jsval
  sd_error :: jsval
  sd_parsed :: "parsed_summary option"

record toolData =
  td_id :: string
  td_tool :: "string option"
  td_status :: "string option"
  td_input :: jsval
  td_input_questions :: "question list option"
  td_output :: jsval
  td_title :: jsval
  td_error :: jsval

text \<open>
  The calls \<^verbatim>\<open>onEvent(eventType, data)\<close>; \<^verbatim>\<open>tool_pending\<close> ... \<^verbatim>\<open>tool_update\<close> are
  \<open>Ev_tool\<close> with the status class, and likewise \<open>Ev_subagent\<close>.
\<close>

datatype app_event =
    Ev_connected
  | Ev_server_connected
  | Ev_file_edited
  | Ev_session_status
  | Ev_text_delta jsval
  | Ev_reasoning jsval
  | Ev_tool lifecycle toolData
  | Ev_subagent lifecycle subagentData
  | Ev_step_start
  | Ev_step_finish jsval jsval
  | Ev_message_complete jsval jsval jsval
  | Ev_message_tool_calls jsval
  | Ev_question_asked "properties option"
  | Ev_session_error "properties option"
  | Ev_session_idle
  | Ev_error

record event_stream =
  es_connected :: bool
  es_activeSubagents :: "(string \<times> subagentData) list"

datatype js_error = TypeError

text \<open>
  \<^verbatim>\<open>parseTaskOutput(output)\<close> returns at once on a falsy output and calls
  \<^verbatim>\<open>output.trim()\<close> otherwise, which only a string has.
\<close>

definition parseTaskOutput_throws :: "jsval \<Rightarrow> bool" where
  "parseTaskOutput_throws output = (truthy output \<and> (case output of JStr s \<Rightarrow> False | v \<Rightarrow> True))"

definition fallback_id :: "string \<Rightarrow> string option \<Rightarrow> nat \<Rightarrow> string" where
  "fallback_id pre i now =
     (case i of Some s \<Rightarrow> if s \<noteq> [] then s else pre @ decimal now
              | None \<Rightarrow> pre @ decimal now)"

definition no_state :: tool_state where
  "no_state = \<lparr>st_status = None, st_input = JUndefined, st_input_questions = None,
               st_output = JUndefined, st_title = JUndefined, st_error = JUndefined\<rparr>"

text \<open>\<^verbatim>\<open>part.state || {}\<close>.\<close>

definition state_of :: "part \<Rightarrow> tool_state" where
  "state_of p = (case part_state p of Some st \<Rightarrow> st | None \<Rightarrow> no_state)"

text \<open>The object literal \<^verbatim>\<open>subagentData\<close> of \<^verbatim>\<open>handleSubagentEvent\<close>.\<close>

definition subagent_data :: "nat \<Rightarrow> part \<Rightarrow> sse_event \<Rightarrow> subagentData" where
  "subagent_data now p fullEvent =
     (let state = state_of p;
          input = js_or (st_input state) (JObj [])
      in \<lparr>sd_id = fallback_id ''subagent-'' (part_id p) now,
          sd_status = st_status state,
          sd_subagentType =
            js_or (ev_subagent_type fullEvent)
              (js_or (get_field input ''subagent_type'') (JStr ''general'')),
          sd_description =
            js_or (ev_subagent_description fullEvent)
              (js_or (get_field input ''description'') (JStr [])),
          sd_prompt = js_or (get_field input ''prompt'') (JStr []),
          sd_output = js_or (st_output state) (JStr []),
          sd_title = js_or (st_title state) (JStr []),
          sd_error = js_or (st_error state) JNull,
          sd_parsed = ev_subagent_parsed fullEvent\<rparr>)"

text \<open>
  \<^verbatim>\<open>handleSubagentEvent\<close>. The object literal calls \<^verbatim>\<open>parseTaskOutput\<close>, so a throw
  there ends the handler before the tracking map is written and before \<^verbatim>\<open>onEvent\<close>.
  Each of the four named cases of the \<^verbatim>\<open>switch\<close> begins with a log line whose template
  converts the sub-agent type; a throw there comes after the map was written and before
  \<^verbatim>\<open>delete\<close> and \<^verbatim>\<open>onEvent\<close>: the id is tracked and nothing is handed on (the
  exception ends in the \<^verbatim>\<open>catch\<close> of the caller, which logs it).
\<close>

definition handleSubagentEvent ::
  "event_stream \<Rightarrow> nat \<Rightarrow> part \<Rightarrow> sse_event \<Rightarrow> js_error + app_event list \<times> event_stream" where
  "handleSubagentEvent es now p fullEvent =
     (let state = state_of p;
          status = st_status state;
          partId = fallback_id ''subagent-'' (part_id p) now
      in if parseTaskOutput_throws (st_output state) then Inl TypeError
         else
           let subagentData = subagent_data now p fullEvent;
               tracked = AList.update partId subagentData (es_activeSubagents es)
           in if lifecycle_of status \<noteq> Update \<and> string_throws (sd_subagentType subagentData)
              then Inr ([], es\<lparr>es_activeSubagents := tracked\<rparr>)
              else
              case lifecycle_of status of
                Completed \<Rightarrow>
                  Inr ([Ev_subagent Completed subagentData],
                       es\<lparr>es_activeSubagents := AList.delete partId tracked\<rparr>)
              | Failed \<Rightarrow>
                  Inr ([Ev_subagent Failed subagentData],
                       es\<lparr>es_activeSubagents := AList.delete partId tracked\<rparr>)
              | k \<Rightarrow> Inr ([Ev_subagent k subagentData], es\<lparr>es_activeSubagents := tracked\<rparr>))"

definition handleToolUpdate ::
  "event_stream \<Rightarrow> nat \<Rightarrow> part \<Rightarrow> js_error + app_event list \<times> event_stream" where
  "handleToolUpdate es now p =
     (let state = (case part_state p of Some st \<Rightarrow> st | None \<Rightarrow> no_state);
          toolData =
            \<lparr>td_id = fallback_id ''tool-'' (part_id p) now,
             td_tool = part_tool p,
             td_status = st_status state,
             td_input = st_input state,
             td_input_questions = st_input_questions state,
             td_output = st_output state,
             td_title = st_title state,
             td_error = st_error state\<rparr>
      in Inr ([Ev_tool (lifecycle_of (st_status state)) toolData], es))"

definition handlePartUpdated ::
  "event_stream \<Rightarrow> nat \<Rightarrow> properties option \<Rightarrow> sse_event \<Rightarrow>
     js_error + app_event list \<times> event_stream" where
  "handlePartUpdated es now props fullEvent =
     (case props of
        None \<Rightarrow> Inl TypeError
      | Some pr \<Rightarrow>
          (case prop_part pr of
             None \<Rightarrow> Inr ([], es)
           | Some p \<Rightarrow>
               (case part_type p of
                  None \<Rightarrow> Inr ([], es)
                | Some partType \<Rightarrow>
                    if partType = [] then Inr ([], es)
                    else if partType = ''text'' then
                      (if truthy (prop_delta pr) then Inr ([Ev_text_delta (prop_delta pr)], es)
                       else Inr ([], es))
                    else if partType = ''reasoning'' then
                      Inr ([Ev_reasoning (js_or (part_text p) (JStr []))], es)
                    else if partType = ''tool'' then
                      (if ev_is_subagent fullEvent \<or> part_tool p = Some ''task''
                       then handleSubagentEvent es now p fullEvent
                       else handleToolUpdate es now p)
                    else if partType = ''step-start'' then Inr ([Ev_step_start], es)
                    else if partType = ''step-finish'' then
                      Inr ([Ev_step_finish (part_reason p) (part_tokens p)], es)
                    else Inr ([], es))))"

definition handleMessageUpdated ::
  "event_stream \<Rightarrow> properties option \<Rightarrow> js_error + app_event list \<times> event_stream" where
  "handleMessageUpdated es props =
     (case props of
        None \<Rightarrow> Inl TypeError
      | Some pr \<Rightarrow>
          (case prop_info pr of
             None \<Rightarrow> Inr ([], es)
           | Some i \<Rightarrow>
               if info_role i \<noteq> Some ''assistant'' then Inr ([], es)
               else if truthy (info_finish i) then
                 (if info_finish i = JStr ''tool-calls''
                  then Inr ([Ev_message_tool_calls (info_tokens i)], es)
                  else Inr ([Ev_message_complete (info_finish i) (info_tokens i) (info_cost i)], es))
               else Inr ([], es)))"

text \<open>The event types that \<^verbatim>\<open>handleEvent\<close> has a \<^verbatim>\<open>case\<close> for.\<close>

definition recognized_types :: "string list" where
  "recognized_types =
     [''server.connected'', ''server.heartbeat'', ''message.part.updated'', ''message.updated'',
      ''file.edited'', ''session.status'', ''session.error'', ''session.idle'',
      ''connection.error'', ''question.asked'']"

definition handleEvent ::
  "event_stream \<Rightarrow> nat \<Rightarrow> sse_event \<Rightarrow> js_error + app_event list \<times> event_stream" where
  "handleEvent es now event =
     (let type = ev_type event; props = ev_properties event
      in if type = Some ''server.connected'' then Inr ([Ev_server_connected], es)
         else if type = Some ''server.heartbeat'' then Inr ([], es)
         else if type = Some ''message.part.updated'' then handlePartUpdated es now props event
         else if type = Some ''message.updated'' then handleMessageUpdated es props
         else if type = Some ''file.edited'' then Inr ([Ev_file_edited], es)
         else if type = Some ''session.status'' then Inr ([Ev_session_status], es)
         else if type = Some ''session.error'' then Inr ([Ev_session_error props], es)
         else if type = Some ''session.idle'' then Inr ([Ev_session_idle], es)
         else if type = Some ''connection.error'' then Inr ([Ev_error], es)
         else if type = Some ''question.asked'' then Inr ([Ev_question_asked props], es)
         else Inr ([], es))"

section \<open>components.js: the elements of an assistant message\<close>

text \<open>
  An assistant message is the list of the children of its \<^verbatim>\<open>.message-content\<close>
  container, in document order (\<^verbatim>\<open>createAssistantMessage\<close> always makes the container).
  A tool element keeps what its markup shows: the status, the title, and the input, output
  and error blocks when they were rendered. A text block is kept as the text it was rendered
  from; markup that the rendering of a text brings into the document is not followed. A
  sub-agent panel lives in a store of its own
  (\<open>panels\<close> below), because the application keeps references to panels; of a panel the
  status and the header are kept, the collapsible content is not.
\<close>

record tool_el =
  el_toolId :: "string option"
  el_tool :: "string option"
  el_status :: "string option"
  el_title :: jsval
  el_input :: "jsval option"
  el_output :: "jsval option"
  el_error :: "jsval option"
  el_placeholder :: bool

record panel =
  pn_id :: "string option"
  pn_status :: "string option"
  pn_subagentType :: jsval
  pn_description :: jsval

datatype node =
    TextNode string
  | ThinkingNode jsval
  | ToolNode tool_el
  | PanelNode nat
  | QuestionnaireNode "question list"
  | Indicator

type_synonym message_el = "node list"

section \<open>The JavaScript runtime\<close>

text \<open>
  \<^verbatim>\<open>JSON.stringify(v, null, 2)\<close>, \<^verbatim>\<open>String(v)\<close> and \<^verbatim>\<open>Object.values\<close> belong to
  the JavaScript runtime, not to the repository: the functions that call them take them as a
  parameter. \<^verbatim>\<open>JSON.stringify\<close> returns a string, returns \<^verbatim>\<open>undefined\<close>, or throws.
  \<^verbatim>\<open>String\<close> is taken to return a string (it throws only on an object that overrides
  \<^verbatim>\<open>toString\<close> or \<^verbatim>\<open>valueOf\<close> in an unusual way).
\<close>

datatype stringify_result = Threw | Undef | Str string

text \<open>
  An object made by an object literal inherits the members of \<^verbatim>\<open>Object.prototype\<close>:
  reading a property that the object does not own under one of these names gives the
  inherited member, a function or (for \<^verbatim>\<open>__proto__\<close>) the prototype itself, never
  \<^verbatim>\<open>undefined\<close> or an array. What \<^verbatim>\<open>String\<close> makes of such a member is the
  runtime's (\<open>String_inherited\<close>).
\<close>

definition object_prototype_names :: "string list" where
  "object_prototype_names =
     [''constructor'', ''hasOwnProperty'', ''isPrototypeOf'', ''propertyIsEnumerable'',
      ''toLocaleString'', ''toString'', ''valueOf'', ''__proto__'',
      ''__defineGetter__'', ''__defineSetter__'', ''__lookupGetter__'', ''__lookupSetter__'']"

text \<open>
  \<^verbatim>\<open>messageEl.querySelector('[data-tool-id="ID"]')\<close> with the id spliced in as it came.
  For an id without a double quote, a backslash, a line break, a form feed or a NUL
  character (\<open>plain_id\<close>) the selector is valid and selects the elements whose
  \<^verbatim>\<open>data-tool-id\<close> equals the id; only tool elements carry that attribute. For any
  other id the selector is invalid (a \<^verbatim>\<open>SyntaxError\<close>) or means something else, as the
  rules of CSS have it; the answer of the selector engine is then a parameter
  (\<open>querySelector_tool_id\<close>, given the id and the children of the message): it throws,
  finds nothing, finds the child at a position (counted from 0), or finds an element that is
  not a child.
\<close>

definition plain_id :: "string \<Rightarrow> bool" where
  "plain_id i =
     list_all (\<lambda>c. c \<notin> set [CHR 0x22, CHR 0x5C, CHR 0x0A, CHR 0x0C, CHR 0x0D, CHR 0x00]) i"

datatype selector_result = Selector_error | No_element | Child_element nat | Other_element

record js_runtime =
  JSON_stringify :: "jsval \<Rightarrow> stringify_result"
  String :: "jsval \<Rightarrow> string"
  Object_values :: "(string \<times> jsval) list \<Rightarrow> jsval list"
  String_inherited :: "string \<Rightarrow> string"
  querySelector_tool_id :: "string \<Rightarrow> node list \<Rightarrow> selector_result"

text \<open>String concatenation \<^verbatim>\<open>s + v\<close> and template literals convert \<open>v\<close> to a string.\<close>

fun to_str :: "js_runtime \<Rightarrow> jsval \<Rightarrow> string" where
  "to_str rt (JStr s) = s"
| "to_str rt v = String rt v"

section \<open>components.js: escapeHtml\<close>

text \<open>
  \<^verbatim>\<open>s.replace(/c/g, r)\<close> for a one-character pattern \<open>c\<close> and a replacement \<open>r\<close> that
  holds no \<^verbatim>\<open>$\<close>: every occurrence of \<open>c\<close> becomes \<open>r\<close>, left to right.
\<close>

definition replace_all :: "char \<Rightarrow> string \<Rightarrow> string \<Rightarrow> string" where
  "replace_all c r s = concat (map (\<lambda>x. if x = c then r else [x]) s)"

definition escapeHtml :: "js_runtime \<Rightarrow> jsval \<Rightarrow> string" where
  "escapeHtml rt unsafe =
     (if loosely_null unsafe then []
      else
        let u1 = (if typeof_object unsafe
                  then (case JSON_stringify rt unsafe of
                          Threw \<Rightarrow> JStr (String rt unsafe)
                        | Undef \<Rightarrow> JUndefined
                        | Str s \<Rightarrow> JStr s)
                  else unsafe);
            u2 = (case u1 of JStr s \<Rightarrow> s | v \<Rightarrow> String rt v)
        in replace_all (CHR 0x27) ''&#039;''
             (replace_all (CHR 0x22) ''&quot;''
               (replace_all (CHR ''>'') ''&gt;''
                 (replace_all (CHR ''<'') ''&lt;''
                   (replace_all (CHR ''&'') ''&amp;'' u2)))))"

text \<open>The five character references that \<^const>\<open>escapeHtml\<close> writes.\<close>

definition entities :: "string list" where
  "entities = [''&amp;'', ''&lt;'', ''&gt;'', ''&quot;'', ''&#039;'']"

text \<open>What the five replacements together make of one character of the input.\<close>

definition esc_char :: "char \<Rightarrow> string" where
  "esc_char c =
     (if c = CHR ''&'' then ''&amp;''
      else if c = CHR ''<'' then ''&lt;''
      else if c = CHR ''>'' then ''&gt;''
      else if c = CHR 0x22 then ''&quot;''
      else if c = CHR 0x27 then ''&#039;''
      else [c])"

section \<open>components.js: building and updating the elements\<close>

text \<open>\<^verbatim>\<open>appendTextToMessage\<close>: render into the text block, made at the end when missing.\<close>

fun set_text :: "string \<Rightarrow> node list \<Rightarrow> node list" where
  "set_text t [] = [TextNode t]"
| "set_text t (TextNode u # ns) = TextNode t # ns"
| "set_text t (n # ns) = n # set_text t ns"

definition appendTextToMessage :: "message_el option \<Rightarrow> string \<Rightarrow> message_el option" where
  "appendTextToMessage messageEl text =
     (case messageEl of None \<Rightarrow> None | Some ns \<Rightarrow> Some (set_text text ns))"

fun has_thinking :: "node list \<Rightarrow> bool" where
  "has_thinking [] = False"
| "has_thinking (ThinkingNode u # ns) = True"
| "has_thinking (n # ns) = has_thinking ns"

fun update_thinking :: "jsval \<Rightarrow> node list \<Rightarrow> node list" where
  "update_thinking t [] = []"
| "update_thinking t (ThinkingNode u # ns) = ThinkingNode t # ns"
| "update_thinking t (n # ns) = n # update_thinking t ns"

definition addThinkingSection :: "message_el option \<Rightarrow> jsval \<Rightarrow> message_el option" where
  "addThinkingSection messageEl text =
     (case messageEl of
        None \<Rightarrow> None
      | Some ns \<Rightarrow>
          if \<not> truthy text then Some ns
          else if has_thinking ns then Some (update_thinking text ns)
          else Some (ThinkingNode text # ns))"

text \<open>\<^verbatim>\<open>Object.keys(v).length > 0\<close> for a truthy \<open>v\<close>.\<close>

fun has_keys :: "jsval \<Rightarrow> bool" where
  "has_keys (JObj kvs) = (kvs \<noteq> [])"
| "has_keys (JArr xs) = (xs \<noteq> [])"
| "has_keys (JStr s) = (s \<noteq> [])"
| "has_keys v = False"

definition shown_input :: "jsval \<Rightarrow> bool" where
  "shown_input input = (truthy input \<and> has_keys input)"

text \<open>
  The markup of a tool element holds \<^verbatim>\<open>JSON.stringify(input, null, 2)\<close> for an input that
  is shown and \<^verbatim>\<open>String(output)\<close> for a truthy output; each of the two may throw, in
  \<^verbatim>\<open>addToolResult\<close> and in \<^verbatim>\<open>updateToolStatus\<close> alike.
\<close>

definition input_throws :: "js_runtime \<Rightarrow> jsval \<Rightarrow> bool" where
  "input_throws rt input = (shown_input input \<and> JSON_stringify rt input = Threw)"

definition output_throws :: "jsval \<Rightarrow> bool" where
  "output_throws output = (truthy output \<and> string_throws output)"

definition render_throws :: "js_runtime \<Rightarrow> toolData \<Rightarrow> bool" where
  "render_throws rt d = (input_throws rt (td_input d) \<or> output_throws (td_output d))"

text \<open>
  \<^verbatim>\<open>addToolResult\<close> when it does not throw: the new element, appended to the message. A
  throw comes before the element is appended.
\<close>

definition new_tool_el :: "toolData \<Rightarrow> tool_el" where
  "new_tool_el d =
     \<lparr>el_toolId = None,
      el_tool = td_tool d,
      el_status = td_status d,
      el_title = js_or (td_title d)
                   (JStr (case td_tool d of Some t \<Rightarrow> t | None \<Rightarrow> ''undefined'')),
      el_input = (if shown_input (td_input d) then Some (td_input d) else None),
      el_output = (if truthy (td_output d) then Some (td_output d) else None),
      el_error = (if truthy (td_error d) then Some (td_error d) else None),
      el_placeholder =
        (\<not> (shown_input (td_input d) \<or> truthy (td_output d) \<or> truthy (td_error d)))\<rparr>"

definition addToolResult :: "message_el option \<Rightarrow> toolData \<Rightarrow> message_el option" where
  "addToolResult messageEl d =
     (case messageEl of None \<Rightarrow> None | Some ns \<Rightarrow> Some (ns @ [ToolNode (new_tool_el d)]))"

definition updateToolStatus ::
  "tool_el \<Rightarrow> string option \<Rightarrow> jsval \<Rightarrow> jsval \<Rightarrow> jsval \<Rightarrow> tool_el" where
  "updateToolStatus toolEl status output input error =
     toolEl\<lparr>el_status := status,
            el_input := (if shown_input input then Some input else el_input toolEl),
            el_output := (if truthy output then Some output else el_output toolEl),
            el_error := (if truthy error then Some error else el_error toolEl),
            el_placeholder :=
              (if truthy input \<or> truthy output \<or> truthy error then False
               else el_placeholder toolEl)\<rparr>"

text \<open>
  \<^verbatim>\<open>updateToolStatus\<close> when it throws: the status is written first, then the input
  block, then the output block.
\<close>

definition updateToolStatus_thrown ::
  "js_runtime \<Rightarrow> tool_el \<Rightarrow> string option \<Rightarrow> jsval \<Rightarrow> tool_el" where
  "updateToolStatus_thrown rt toolEl status input =
     (if input_throws rt input then toolEl\<lparr>el_status := status\<rparr>
      else toolEl\<lparr>el_status := status,
                  el_input := (if shown_input input then Some input else el_input toolEl)\<rparr>)"

text \<open>
  \<^verbatim>\<open>querySelector('[data-tool-id="ID"]')\<close> on the message: for a plain id the first
  tool element that carries the id, for any other id what the selector engine answers.
\<close>

fun first_tool :: "string \<Rightarrow> node list \<Rightarrow> nat option" where
  "first_tool i [] = None"
| "first_tool i (ToolNode e # ns) =
     (if el_toolId e = Some i then Some 0 else map_option Suc (first_tool i ns))"
| "first_tool i (n # ns) = map_option Suc (first_tool i ns)"

definition querySelector_tool :: "js_runtime \<Rightarrow> string \<Rightarrow> node list \<Rightarrow> selector_result" where
  "querySelector_tool rt i ns =
     (if plain_id i
      then (case first_tool i ns of None \<Rightarrow> No_element | Some n \<Rightarrow> Child_element n)
      else querySelector_tool_id rt i ns)"

text \<open>The tool element at a position among the children, if there is one.\<close>

definition child_tool :: "nat \<Rightarrow> node list \<Rightarrow> tool_el option" where
  "child_tool n ns =
     (if n < length ns then (case ns ! n of ToolNode e \<Rightarrow> Some e | other \<Rightarrow> None) else None)"

text \<open>The tool elements of a message that carry the id \<open>i\<close>, in document order.\<close>

fun tools_with :: "string \<Rightarrow> node list \<Rightarrow> tool_el list" where
  "tools_with i [] = []"
| "tools_with i (ToolNode e # ns) =
     (if el_toolId e = Some i then e # tools_with i ns else tools_with i ns)"
| "tools_with i (n # ns) = tools_with i ns"

definition moveStreamingIndicatorToBottom :: "message_el option \<Rightarrow> message_el option" where
  "moveStreamingIndicatorToBottom messageEl =
     (case messageEl of
        None \<Rightarrow> None
      | Some ns \<Rightarrow> if Indicator \<in> set ns then Some (remove1 Indicator ns @ [Indicator])
                   else Some ns)"

definition removeStreamingIndicator :: "message_el option \<Rightarrow> message_el option" where
  "removeStreamingIndicator messageEl =
     (case messageEl of None \<Rightarrow> None | Some ns \<Rightarrow> Some (remove1 Indicator ns))"

definition new_panel :: "subagentData \<Rightarrow> panel" where
  "new_panel d =
     \<lparr>pn_id = (if sd_id d \<noteq> [] then Some (sd_id d) else None),
      pn_status = sd_status d,
      pn_subagentType = js_or (sd_subagentType d) (JStr ''general''),
      pn_description = sd_description d\<rparr>"

section \<open>app.js: the application state\<close>

text \<open>
  The state holds the fields of \<^verbatim>\<open>App\<close> that the handlers below read or write, the
  page elements they touch, the last status line (\<^verbatim>\<open>updateStatus\<close>) and the toasts
  shown so far (\<^verbatim>\<open>createToast\<close>), oldest first. The texts of the status line and of
  the toasts are named, not spelled. The chat container, the progress tracker and the
  scroll position are not part of it: no handler reads them back.
\<close>

datatype status_line =
    Status_ready
  | Status_generating
  | Status_tools
  | Status_waiting_reply
  | Status_submitting
  | Status_processing
  | Status_subagent jsval

datatype toast =
    Toast_select_project
  | Toast_create_session_failed
  | Toast_send_failed
  | Toast_session_error jsval
  | Toast_subagent_failed jsval
  | Toast_stopped
  | Toast_no_project
  | Toast_submit_failed string

datatype placeholder = Placeholder_normal | Placeholder_question

record input_box =
  ib_value :: string
  ib_placeholder :: placeholder
  ib_highlight :: bool
  ib_disabled :: bool

record attachment =
  f_name :: string
  f_type :: string
  f_dataURL :: "string option"

record app =
  eventStream :: "event_stream option"
  currentProject :: "string option"
  currentSession :: "string option"
  isFirstMessageInSession :: bool
  personalRules :: string
  attachedFiles :: "attachment list"
  isStreaming :: bool
  currentMessageEl :: "message_el option"
  currentMessageText :: string
  activeSubagents :: "(string \<times> nat) list"
  panels :: "panel list"
  pendingQuestionRequestId :: "string option"
  isQuestionPending :: bool
  messageInput :: "input_box option"
  sendBtn_hidden :: "bool option"
  sendIconBtn_hidden :: "bool option"
  stopBtn_hidden :: bool
  status :: status_line
  toasts :: "toast list"

text \<open>Truthiness of an optional string (\<^verbatim>\<open>!this.currentSession\<close>, \<^verbatim>\<open>data.id\<close>).\<close>

definition truthy_str :: "string option \<Rightarrow> bool" where
  "truthy_str s = (case s of None \<Rightarrow> False | Some t \<Rightarrow> t \<noteq> [])"

definition setInputQuestionMode :: "app \<Rightarrow> bool \<Rightarrow> app" where
  "setInputQuestionMode a active =
     (case messageInput a of
        None \<Rightarrow> a
      | Some ib \<Rightarrow>
          if active then
            a\<lparr>messageInput := Some (ib\<lparr>ib_placeholder := Placeholder_question, ib_highlight := True\<rparr>),
              isQuestionPending := True\<rparr>
          else
            a\<lparr>messageInput :=
                Some (ib\<lparr>ib_placeholder := Placeholder_normal, ib_highlight := False,
                         ib_disabled := False\<rparr>),
              isQuestionPending := False\<rparr>)"

definition show_send_buttons :: "app \<Rightarrow> app" where
  "show_send_buttons a =
     a\<lparr>sendBtn_hidden := map_option (\<lambda>h. False) (sendBtn_hidden a),
       sendIconBtn_hidden := map_option (\<lambda>h. False) (sendIconBtn_hidden a),
       stopBtn_hidden := True\<rparr>"

definition show_stop_button :: "app \<Rightarrow> app" where
  "show_stop_button a =
     a\<lparr>sendBtn_hidden := map_option (\<lambda>h. True) (sendBtn_hidden a),
       sendIconBtn_hidden := map_option (\<lambda>h. True) (sendIconBtn_hidden a),
       stopBtn_hidden := False\<rparr>"

text \<open>
  \<^verbatim>\<open>stopStreaming\<close>: the stream is disconnected (which closes the \<^verbatim>\<open>EventSource\<close>
  and clears the stream's own tracking map) and the reference to it dropped.
\<close>

definition stopStreaming :: "app \<Rightarrow> app" where
  "stopStreaming a = (show_send_buttons (a\<lparr>isStreaming := False\<rparr>))\<lparr>eventStream := None\<rparr>"

definition cleanupAfterMessage :: "app \<Rightarrow> app" where
  "cleanupAfterMessage a = a\<lparr>activeSubagents := []\<rparr>"

definition connectEventStream :: "app \<Rightarrow> app" where
  "connectEventStream a =
     (case currentProject a of
        None \<Rightarrow> a
      | Some projectPath \<Rightarrow>
          a\<lparr>eventStream := Some \<lparr>es_connected = False, es_activeSubagents = []\<rparr>\<rparr>)"

definition startAssistantMessage :: "app \<Rightarrow> app" where
  "startAssistantMessage a = a\<lparr>currentMessageEl := Some [Indicator], currentMessageText := []\<rparr>"

section \<open>app.js: the handlers of stream events\<close>

text \<open>
  \<^verbatim>\<open>handleToolEvent\<close>. Without a current message neither lookup is made and nothing is
  added. A lookup that throws ends the handler before it has changed anything; a throw
  while an element is made or updated ends it before the streaming indicator is moved. On
  an element that is not a tool element \<^verbatim>\<open>updateToolStatus\<close> finds no details block and
  returns early; what it has done by then to the class and status attributes of such an
  element is not followed.
\<close>

definition handleToolEvent :: "js_runtime \<Rightarrow> app \<Rightarrow> toolData \<Rightarrow> app" where
  "handleToolEvent rt a d =
     (let i = td_id d in
      if td_tool d = Some ''question'' \<and> td_input_questions d \<noteq> None then
        (case currentMessageEl a of
           None \<Rightarrow> a
         | Some ns \<Rightarrow>
             (case querySelector_tool rt i ns of
                No_element \<Rightarrow>
                  (case td_input_questions d of
                     None \<Rightarrow> a
                   | Some qs \<Rightarrow> a\<lparr>currentMessageEl := Some (ns @ [QuestionnaireNode qs])\<rparr>)
              | Selector_error \<Rightarrow> a
              | Child_element n \<Rightarrow> a
              | Other_element \<Rightarrow> a))
      else
        (case currentMessageEl a of
           None \<Rightarrow> a
         | Some ns \<Rightarrow>
             (case querySelector_tool rt i ns of
                Selector_error \<Rightarrow> a
              | No_element \<Rightarrow>
                  if render_throws rt d then a
                  else
                    a\<lparr>currentMessageEl :=
                        moveStreamingIndicatorToBottom
                          (Some (ns @ [ToolNode ((new_tool_el d)
                                         \<lparr>el_toolId := (if i \<noteq> [] then Some i else None)\<rparr>)]))\<rparr>
              | Child_element n \<Rightarrow>
                  (case child_tool n ns of
                     None \<Rightarrow> a\<lparr>currentMessageEl := moveStreamingIndicatorToBottom (Some ns)\<rparr>
                   | Some e \<Rightarrow>
                       if render_throws rt d then
                         a\<lparr>currentMessageEl :=
                             Some (ns[n := ToolNode (updateToolStatus_thrown rt e (td_status d)
                                                       (td_input d))])\<rparr>
                       else
                         a\<lparr>currentMessageEl :=
                             moveStreamingIndicatorToBottom
                               (Some (ns[n := ToolNode (updateToolStatus e (td_status d)
                                                          (td_output d) (td_input d)
                                                          (td_error d))]))\<rparr>)
              | Other_element \<Rightarrow>
                  a\<lparr>currentMessageEl := moveStreamingIndicatorToBottom (Some ns)\<rparr>)))"

text \<open>
  \<^verbatim>\<open>addSubagentToMessage\<close> returns the new panel, or nothing when there is no message.
  The names of the progress step (in \<^verbatim>\<open>handleSubagentStart\<close>) and of the failure toast
  are templates that convert the sub-agent type: a throw there ends the handler after the
  panel and the tracking map were written.
  \<^verbatim>\<open>updateSubagentPanel\<close> writes through the reference it is given; a reference held by
  the tracking map always comes from \<^verbatim>\<open>addSubagentToMessage\<close>, so it is in the store.
\<close>

definition addSubagentToMessage :: "app \<Rightarrow> subagentData \<Rightarrow> app \<times> nat option" where
  "addSubagentToMessage a d =
     (case currentMessageEl a of
        None \<Rightarrow> (a, None)
      | Some ns \<Rightarrow>
          (a\<lparr>panels := panels a @ [new_panel d],
             currentMessageEl := Some (ns @ [PanelNode (length (panels a))])\<rparr>,
           Some (length (panels a))))"

definition updateSubagentPanel :: "app \<Rightarrow> nat \<Rightarrow> subagentData \<Rightarrow> app" where
  "updateSubagentPanel a n d =
     (if n < length (panels a)
      then a\<lparr>panels := (panels a)[n := (panels a ! n)\<lparr>pn_status := sd_status d\<rparr>]\<rparr>
      else a)"

definition handleSubagentStart :: "nat \<Rightarrow> app \<Rightarrow> subagentData \<Rightarrow> app" where
  "handleSubagentStart now a d =
     (case currentMessageEl a of
        None \<Rightarrow> a
      | Some ns0 \<Rightarrow>
          let subagentId = (if sd_id d \<noteq> [] then sd_id d else ''subagent-'' @ decimal now);
              a1 = (case map_of (activeSubagents a) subagentId of
                      Some n \<Rightarrow> updateSubagentPanel a n d
                    | None \<Rightarrow>
                        (case addSubagentToMessage a d of
                           (a', Some n) \<Rightarrow>
                             a'\<lparr>activeSubagents := AList.update subagentId n (activeSubagents a')\<rparr>
                         | (a', None) \<Rightarrow> a'))
          in if string_throws (sd_subagentType d)
             then a1\<lparr>currentMessageEl := moveStreamingIndicatorToBottom (currentMessageEl a1)\<rparr>
             else a1\<lparr>currentMessageEl := moveStreamingIndicatorToBottom (currentMessageEl a1),
                    status := Status_subagent (js_or (sd_subagentType d) (JStr ''general''))\<rparr>)"

definition handleSubagentComplete :: "app \<Rightarrow> subagentData \<Rightarrow> app" where
  "handleSubagentComplete a d =
     (let a1 = (case map_of (activeSubagents a) (sd_id d) of
                  Some n \<Rightarrow>
                    (updateSubagentPanel a n d)
                      \<lparr>activeSubagents := AList.delete (sd_id d) (activeSubagents a)\<rparr>
                | None \<Rightarrow> fst (addSubagentToMessage a d))
      in a1\<lparr>status := Status_processing\<rparr>)"

definition handleSubagentFailed :: "app \<Rightarrow> subagentData \<Rightarrow> app" where
  "handleSubagentFailed a d =
     (let a1 = (case map_of (activeSubagents a) (sd_id d) of
                  Some n \<Rightarrow>
                    (updateSubagentPanel a n d)
                      \<lparr>activeSubagents := AList.delete (sd_id d) (activeSubagents a)\<rparr>
                | None \<Rightarrow> fst (addSubagentToMessage a d))
      in if string_throws (sd_subagentType d) then a1
         else a1\<lparr>toasts := toasts a1 @
                  [Toast_subagent_failed (js_or (sd_subagentType d) (JStr ''unknown''))]\<rparr>)"

definition handleSubagentUpdate :: "app \<Rightarrow> subagentData \<Rightarrow> app" where
  "handleSubagentUpdate a d =
     (case map_of (activeSubagents a) (sd_id d) of
        Some n \<Rightarrow> updateSubagentPanel a n d
      | None \<Rightarrow> a)"

definition stringify_if_object :: "js_runtime \<Rightarrow> jsval \<Rightarrow> js_error + jsval" where
  "stringify_if_object rt v =
     (if typeof_object v
      then (case JSON_stringify rt v of
              Threw \<Rightarrow> Inl TypeError
            | Undef \<Rightarrow> Inr JUndefined
            | Str s \<Rightarrow> Inr (JStr s))
      else Inr v)"

text \<open>\<^verbatim>\<open>s += (v || '')\<close>.\<close>

definition append_value :: "js_runtime \<Rightarrow> string \<Rightarrow> jsval \<Rightarrow> string" where
  "append_value rt s v = s @ (if truthy v then to_str rt v else [])"

text \<open>
  \<^verbatim>\<open>handleStreamEvent\<close>. Its first lines copy the enhancement keys of \<open>data\<close>; no data
  object built by the decoder above has such a key, so they change nothing here. A handler
  that throws leaves the state as it was at the throw (the exception ends in the
  \<^verbatim>\<open>catch\<close> of \<^verbatim>\<open>onmessage\<close>).
\<close>

definition handleStreamEvent :: "js_runtime \<Rightarrow> nat \<Rightarrow> app \<Rightarrow> app_event \<Rightarrow> app" where
  "handleStreamEvent rt now a ev =
     (case ev of
        Ev_text_delta delta0 \<Rightarrow>
          (case stringify_if_object rt delta0 of
             Inl e \<Rightarrow> a
           | Inr delta \<Rightarrow>
               let t = append_value rt (currentMessageText a) delta
               in a\<lparr>currentMessageText := t,
                    currentMessageEl := appendTextToMessage (currentMessageEl a) t\<rparr>)
      | Ev_reasoning text \<Rightarrow>
          a\<lparr>currentMessageEl := addThinkingSection (currentMessageEl a) text\<rparr>
      | Ev_tool k d \<Rightarrow> (if k = Update then a else handleToolEvent rt a d)
      | Ev_subagent k d \<Rightarrow>
          (case k of
             Pending \<Rightarrow> handleSubagentStart now a d
           | Running \<Rightarrow> handleSubagentStart now a d
           | Completed \<Rightarrow> handleSubagentComplete a d
           | Failed \<Rightarrow> handleSubagentFailed a d
           | Update \<Rightarrow> handleSubagentUpdate a d)
      | Ev_message_complete finish tokens cost \<Rightarrow>
          (stopStreaming
             (cleanupAfterMessage
                (a\<lparr>currentMessageEl := removeStreamingIndicator (currentMessageEl a)\<rparr>)))
            \<lparr>status := Status_ready\<rparr>
      | Ev_message_tool_calls tokens \<Rightarrow> a\<lparr>status := Status_tools\<rparr>
      | Ev_question_asked props \<Rightarrow>
          (case currentMessageEl a of
             None \<Rightarrow> a
           | Some ns \<Rightarrow>
               (case props of
                  None \<Rightarrow> a
                | Some pr \<Rightarrow>
                    let a1 = a\<lparr>pendingQuestionRequestId := prop_id pr,
                               currentMessageEl := Some (remove1 Indicator ns)\<rparr>
                    in (case prop_questions pr of
                          None \<Rightarrow> a1
                        | Some qs \<Rightarrow>
                            setInputQuestionMode
                              ((show_send_buttons
                                  (a1\<lparr>currentMessageEl :=
                                        Some (remove1 Indicator ns @ [QuestionnaireNode qs]),
                                      isStreaming := False\<rparr>))
                                 \<lparr>status := Status_waiting_reply\<rparr>)
                              True)))
      | Ev_session_error props \<Rightarrow>
          (case props of
             None \<Rightarrow> a
           | Some pr \<Rightarrow>
               if string_throws (prop_error pr) then a
               else
                 stopStreaming
                   (cleanupAfterMessage
                      (a\<lparr>toasts := toasts a @ [Toast_session_error (prop_error pr)]\<rparr>)))
      | Ev_session_idle \<Rightarrow> cleanupAfterMessage a
      | other \<Rightarrow> a)"

text \<open>
  One callback of the \<^verbatim>\<open>EventSource\<close> of the application's stream, with the reading
  of the clock during it. A closed stream calls nothing. An exception of
  \<^verbatim>\<open>handleEvent\<close> is caught and logged.
\<close>

definition onmessage :: "js_runtime \<Rightarrow> nat \<Rightarrow> app \<Rightarrow> frame \<Rightarrow> app" where
  "onmessage rt now a fr =
     (case eventStream a of
        None \<Rightarrow> a
      | Some es \<Rightarrow>
          (case fr of
             Opened \<Rightarrow>
               handleStreamEvent rt now (a\<lparr>eventStream := Some (es\<lparr>es_connected := True\<rparr>)\<rparr>)
                 Ev_connected
           | ConnError \<Rightarrow>
               handleStreamEvent rt now (a\<lparr>eventStream := Some (es\<lparr>es_connected := False\<rparr>)\<rparr>)
                 Ev_error
           | Malformed \<Rightarrow> a
           | Message event \<Rightarrow>
               (case handleEvent es now event of
                  Inl e \<Rightarrow> a
                | Inr (outs, es') \<Rightarrow>
                    foldl (handleStreamEvent rt now) (a\<lparr>eventStream := Some es'\<rparr>) outs)))"

text \<open>A run of callbacks, each with its clock reading.\<close>

definition run_frames :: "js_runtime \<Rightarrow> app \<Rightarrow> (nat \<times> frame) list \<Rightarrow> app" where
  "run_frames rt a frs = foldl (\<lambda>s (now, fr). onmessage rt now s fr) a frs"

section \<open>app.js: sending, replying, aborting\<close>

record response =
  resp_info :: "info option"
  resp_parts :: "part list option"

record collected =
  c_text :: string
  c_reasoning :: jsval
  c_tools :: "toolData list"

definition tool_of_part :: "part \<Rightarrow> toolData" where
  "tool_of_part p =
     (let state = (case part_state p of Some st \<Rightarrow> st | None \<Rightarrow> no_state)
      in \<lparr>td_id = [],
          td_tool = part_tool p,
          td_status = (if truthy_str (st_status state) then st_status state else Some ''completed''),
          td_input = st_input state,
          td_input_questions = st_input_questions state,
          td_output = st_output state,
          td_title = st_title state,
          td_error = st_error state\<rparr>)"

fun collect_parts :: "js_runtime \<Rightarrow> part list \<Rightarrow> collected \<Rightarrow> js_error + collected" where
  "collect_parts rt [] c = Inr c"
| "collect_parts rt (p # ps) c =
     (if part_type p = Some ''text'' then
        (case stringify_if_object rt (part_text p) of
           Inl e \<Rightarrow> Inl e
         | Inr v \<Rightarrow> collect_parts rt ps (c\<lparr>c_text := append_value rt (c_text c) v\<rparr>))
      else if part_type p = Some ''reasoning'' then
        collect_parts rt ps (c\<lparr>c_reasoning := js_or (part_text p) (JStr [])\<rparr>)
      else if part_type p = Some ''tool'' then
        collect_parts rt ps (c\<lparr>c_tools := c_tools c @ [tool_of_part p]\<rparr>)
      else collect_parts rt ps c)"

text \<open>
  The loop that adds the tool results: \<open>Inl\<close> when \<^verbatim>\<open>addToolResult\<close> throws, with the
  message as the results before it left it.
\<close>

fun add_tool_results ::
  "js_runtime \<Rightarrow> message_el option \<Rightarrow> toolData list \<Rightarrow> message_el option + message_el option" where
  "add_tool_results rt m [] = Inr m"
| "add_tool_results rt m (d # ds) =
     (if m \<noteq> None \<and> render_throws rt d then Inl m
      else add_tool_results rt (addToolResult m d) ds)"

text \<open>
  \<^verbatim>\<open>processMessageResponse\<close>: \<open>Inl\<close> when it throws, with the state as the throw left
  it.
\<close>

definition processMessageResponse ::
  "js_runtime \<Rightarrow> app \<Rightarrow> response \<Rightarrow> js_error \<times> app + app" where
  "processMessageResponse rt a r =
     (case resp_parts r of
        None \<Rightarrow> Inr a
      | Some ps \<Rightarrow>
          if ps = [] then Inr a
          else
            (case collect_parts rt ps \<lparr>c_text = [], c_reasoning = JStr [], c_tools = []\<rparr> of
               Inl e \<Rightarrow> Inl (e, a)
             | Inr c \<Rightarrow>
                 let m1 = (if truthy (c_reasoning c)
                           then addThinkingSection (currentMessageEl a) (c_reasoning c)
                           else currentMessageEl a)
                 in (case add_tool_results rt m1 (c_tools c) of
                       Inl m \<Rightarrow> Inl (TypeError, a\<lparr>currentMessageEl := m\<rparr>)
                     | Inr m2 \<Rightarrow>
                         let m3 = (if c_text c \<noteq> [] then appendTextToMessage m2 (c_text c)
                                   else m2);
                             m4 = (if resp_info r \<noteq> None then removeStreamingIndicator m3
                                   else m3)
                         in Inr (a\<lparr>currentMessageEl := m4\<rparr>))))"

text \<open>
  An \<^verbatim>\<open>async\<close> function is a chain of steps, cut at every \<^verbatim>\<open>await\<close>: a step ends the
  function (\<open>Stop\<close>) or hands on to the next (\<open>Go\<close>). Stream callbacks may run between two
  steps, so each step takes the state as it is when the awaited request settles.
\<close>

datatype 'a flow = Stop app | Go app 'a

definition sendMessage_prepare ::
  "app \<Rightarrow> string option \<Rightarrow> attachment list option \<Rightarrow> (string \<times> attachment list) flow" where
  "sendMessage_prepare a content explicitAttachments =
     (case currentProject a of
        None \<Rightarrow> Stop (a\<lparr>toasts := toasts a @ [Toast_select_project]\<rparr>)
      | Some project \<Rightarrow>
          let a1 = (if isQuestionPending a then setInputQuestionMode a False else a)
          in (case (case content of
                      Some c \<Rightarrow>
                        Some (c, case explicitAttachments of Some fs \<Rightarrow> fs | None \<Rightarrow> [])
                    | None \<Rightarrow>
                        (case messageInput a1 of
                           None \<Rightarrow> None
                         | Some ib \<Rightarrow> Some (trim (ib_value ib), attachedFiles a1))) of
                None \<Rightarrow> Stop a1
              | Some (text, files) \<Rightarrow>
                  if text = [] \<and> files = [] then Stop a1
                  else if isStreaming a1 then Stop a1
                  else Go a1 (text, files)))"

text \<open>
  The reply to \<^verbatim>\<open>createSession\<close> is \<^verbatim>\<open>null\<close> (\<open>None\<close>), on which reading its id
  throws inside the \<^verbatim>\<open>try\<close>, or a session whose id may be absent.
\<close>

definition sendMessage_session :: "app \<Rightarrow> string option option outcome \<Rightarrow> unit flow" where
  "sendMessage_session a created =
     (if truthy_str (currentSession a) then Go a ()
      else (case created of
              Resolved (Some sid) \<Rightarrow>
                Go (a\<lparr>currentSession := sid, isFirstMessageInSession := True\<rparr>) ()
            | Resolved None \<Rightarrow> Stop (a\<lparr>toasts := toasts a @ [Toast_create_session_failed]\<rparr>)
            | Rejected e \<Rightarrow> Stop (a\<lparr>toasts := toasts a @ [Toast_create_session_failed]\<rparr>)))"

definition sendMessage_compose :: "app \<Rightarrow> bool \<Rightarrow> string \<Rightarrow> attachment list \<Rightarrow> unit flow" where
  "sendMessage_compose a from_input text files =
     (if \<not> list_all (\<lambda>f. f_dataURL f \<noteq> None) files then Stop a
      else
        let a1 = (if text \<noteq> [] \<and> isFirstMessageInSession a \<and> personalRules a \<noteq> []
                     \<and> trim (personalRules a) \<noteq> []
                  then a\<lparr>isFirstMessageInSession := False\<rparr> else a);
            a2 = (if from_input
                  then a1\<lparr>messageInput := map_option (\<lambda>ib. ib\<lparr>ib_value := []\<rparr>) (messageInput a1),
                         attachedFiles := []\<rparr>
                  else a1);
            a3 = startAssistantMessage a2;
            a4 = (show_stop_button (a3\<lparr>isStreaming := True\<rparr>))\<lparr>status := Status_generating\<rparr>
        in Go (connectEventStream a4) ())"

definition send_failed :: "app \<Rightarrow> string \<Rightarrow> app" where
  "send_failed a err =
     (if str_includes err ''504'' \<and> eventStream a \<noteq> None then a
      else (stopStreaming (a\<lparr>toasts := toasts a @ [Toast_send_failed]\<rparr>))\<lparr>status := Status_ready\<rparr>)"

definition sendMessage_result :: "js_runtime \<Rightarrow> app \<Rightarrow> response option outcome \<Rightarrow> app" where
  "sendMessage_result rt a reply =
     (case reply of
        Resolved None \<Rightarrow> a
      | Resolved (Some r) \<Rightarrow>
          (case resp_parts r of
             None \<Rightarrow> a
           | Some ps \<Rightarrow>
               if ps = [] then a
               else (case processMessageResponse rt a r of
                       Inl (e, a') \<Rightarrow> send_failed a' ''TypeError''
                     | Inr a' \<Rightarrow> (stopStreaming a')\<lparr>status := Status_ready\<rparr>))
      | Rejected err \<Rightarrow> send_failed a err)"

text \<open>\<^verbatim>\<open>sendMessage\<close> when no stream callback runs between its steps.\<close>

definition sendMessage ::
  "js_runtime \<Rightarrow> app \<Rightarrow> string option \<Rightarrow> attachment list option \<Rightarrow>
     string option option outcome \<Rightarrow> response option outcome \<Rightarrow> app" where
  "sendMessage rt a content explicitAttachments created reply =
     (case sendMessage_prepare a content explicitAttachments of
        Stop a1 \<Rightarrow> a1
      | Go a1 (text, files) \<Rightarrow>
          (case sendMessage_session a1 created of
             Stop a2 \<Rightarrow> a2
           | Go a2 u \<Rightarrow>
               (case sendMessage_compose a2 (content = None) text files of
                  Stop a3 \<Rightarrow> a3
                | Go a3 u' \<Rightarrow> sendMessage_result rt a3 reply)))"

text \<open>
  The reply formatter of \<^verbatim>\<open>submitQuestionnaire\<close>. The answers object is an object
  made by an object literal (as \<^verbatim>\<open>createQuestionnaire\<close> makes it), given by its own
  properties; \<^verbatim>\<open>answers[questionKey]\<close> reads an own property, else the member of
  \<^verbatim>\<open>Object.prototype\<close> of that name, else \<^verbatim>\<open>undefined\<close>.
\<close>

definition questionKey :: "question \<Rightarrow> nat \<Rightarrow> string" where
  "questionKey q idx =
     (if truthy_str (q_header q) then (case q_header q of Some h \<Rightarrow> h | None \<Rightarrow> [])
      else ''Question '' @ decimal (idx + 1))"

definition format_answer :: "js_runtime \<Rightarrow> jsval \<Rightarrow> jsval list" where
  "format_answer rt answer =
     (case answer of
        JArr xs \<Rightarrow> xs
      | v \<Rightarrow> if v \<noteq> JUndefined \<and> v \<noteq> JNull then [JStr (String rt v)] else [])"

definition format_value :: "js_runtime \<Rightarrow> jsval \<Rightarrow> jsval list" where
  "format_value rt v =
     (case v of JArr xs \<Rightarrow> xs | w \<Rightarrow> if truthy w then [JStr (String rt w)] else [])"

text \<open>
  The entry for one key. An inherited member is neither an array nor \<^verbatim>\<open>null\<close> nor
  \<^verbatim>\<open>undefined\<close>, so it takes the \<^verbatim>\<open>[String(answer)]\<close> branch.
\<close>

definition format_entry :: "js_runtime \<Rightarrow> (string \<times> jsval) list \<Rightarrow> string \<Rightarrow> jsval list" where
  "format_entry rt answers key =
     (case map_of answers key of
        Some v \<Rightarrow> format_answer rt v
      | None \<Rightarrow>
          if key \<in> set object_prototype_names then [JStr (String_inherited rt key)]
          else format_answer rt JUndefined)"

definition formatAnswers ::
  "js_runtime \<Rightarrow> (string \<times> jsval) list \<Rightarrow> question list option \<Rightarrow> jsval list list" where
  "formatAnswers rt answers questions =
     (case questions of
        Some qs \<Rightarrow>
          map (\<lambda>(idx, q). format_entry rt answers (questionKey q idx)) (List.enumerate 0 qs)
      | None \<Rightarrow> map (format_value rt) (Object_values rt answers))"

text \<open>
  Formatting throws when \<^verbatim>\<open>String\<close> is applied to an answer that it cannot convert; an
  array is returned as it is, without conversion. The \<^verbatim>\<open>catch\<close> block then reports the
  message of the error (here as V8 words it).
\<close>

definition answer_throws :: "jsval \<Rightarrow> bool" where
  "answer_throws answer = (\<not> isArray answer \<and> string_throws answer)"

definition format_throws ::
  "js_runtime \<Rightarrow> (string \<times> jsval) list \<Rightarrow> question list option \<Rightarrow> bool" where
  "format_throws rt answers questions =
     (case questions of
        Some qs \<Rightarrow>
          list_ex (\<lambda>(idx, q). case map_of answers (questionKey q idx) of
                                   Some v \<Rightarrow> answer_throws v
                                 | None \<Rightarrow> False)
            (List.enumerate 0 qs)
      | None \<Rightarrow> list_ex answer_throws (Object_values rt answers))"

definition conversion_error_message :: string where
  "conversion_error_message = ''Cannot convert object to primitive value''"

text \<open>The literal that opens the text of the fallback message (UTF-8).\<close>

definition fallback_prefix :: string where
  "fallback_prefix =
     [CHR 0xE6, CHR 0x88, CHR 0x91, CHR 0xE5, CHR 0xB7, CHR 0xB2, CHR 0xE6,
      CHR 0x8F, CHR 0x90, CHR 0xE4, CHR 0xBA, CHR 0xA4, CHR 0xE4, CHR 0xBB,
      CHR 0xA5, CHR 0xE4, CHR 0xB8, CHR 0x8B, CHR 0xE5, CHR 0x9B, CHR 0x9E,
      CHR 0xE7, CHR 0xAD, CHR 0x94, CHR 0xEF, CHR 0xBC, CHR 0x9A, CHR 0x0A]"

datatype submit_step = Submit_done app | Submit_send app string | Submit_reply app "jsval list list"

definition submitQuestionnaire_begin ::
  "js_runtime \<Rightarrow> app \<Rightarrow> (string \<times> jsval) list \<Rightarrow> question list option \<Rightarrow> submit_step" where
  "submitQuestionnaire_begin rt a answers questions =
     (let a1 = setInputQuestionMode a False
      in if \<not> truthy_str (pendingQuestionRequestId a1) then
           (case JSON_stringify rt (JObj answers) of
              Threw \<Rightarrow> Submit_done a1
            | Undef \<Rightarrow> Submit_send a1 (fallback_prefix @ ''undefined'')
            | Str s \<Rightarrow> Submit_send a1 (fallback_prefix @ s))
         else (case currentProject a1 of
                 None \<Rightarrow> Submit_done (a1\<lparr>toasts := toasts a1 @ [Toast_no_project]\<rparr>)
               | Some project \<Rightarrow>
                   if format_throws rt answers questions then
                     Submit_done
                       (a1\<lparr>toasts := toasts a1 @ [Toast_submit_failed conversion_error_message],
                           pendingQuestionRequestId := None,
                           status := Status_ready\<rparr>)
                   else
                     Submit_reply (a1\<lparr>status := Status_submitting\<rparr>)
                       (formatAnswers rt answers questions)))"

definition submitQuestionnaire_reply :: "app \<Rightarrow> jsval outcome \<Rightarrow> app" where
  "submitQuestionnaire_reply a result =
     (case result of
        Resolved v \<Rightarrow>
          (show_stop_button (a\<lparr>pendingQuestionRequestId := None, isStreaming := True\<rparr>))
            \<lparr>status := Status_processing\<rparr>
      | Rejected msg \<Rightarrow>
          a\<lparr>toasts := toasts a @ [Toast_submit_failed msg],
            pendingQuestionRequestId := None,
            status := Status_ready\<rparr>)"

text \<open>\<^verbatim>\<open>submitQuestionnaire\<close> when no stream callback runs between its steps.\<close>

definition submitQuestionnaire ::
  "js_runtime \<Rightarrow> app \<Rightarrow> (string \<times> jsval) list \<Rightarrow> question list option \<Rightarrow>
     string option option outcome \<Rightarrow> response option outcome \<Rightarrow> jsval outcome \<Rightarrow> app" where
  "submitQuestionnaire rt a answers questions created reply result =
     (case submitQuestionnaire_begin rt a answers questions of
        Submit_done a1 \<Rightarrow> a1
      | Submit_send a1 text \<Rightarrow> sendMessage rt a1 (Some text) None created reply
      | Submit_reply a1 formatted \<Rightarrow> submitQuestionnaire_reply a1 result)"

text \<open>\<^verbatim>\<open>abortMessage\<close>: the guard, then the \<^verbatim>\<open>finally\<close> block once the request to the
  server has settled.\<close>

definition abortMessage_finish :: "app \<Rightarrow> jsval outcome \<Rightarrow> app" where
  "abortMessage_finish a result =
     (stopStreaming
        (case result of
           Resolved v \<Rightarrow> a\<lparr>toasts := toasts a @ [Toast_stopped]\<rparr>
         | Rejected e \<Rightarrow> a))
       \<lparr>status := Status_ready\<rparr>"

definition abortMessage :: "app \<Rightarrow> jsval outcome \<Rightarrow> app" where
  "abortMessage a result =
     (if \<not> truthy_str (currentSession a) \<or> currentProject a = None then a
      else abortMessage_finish a result)"

section \<open>Sample inputs\<close>

text \<open>
  A runtime, states and events on which the definitions are evaluated below. The sample
  runtime prints every object as \<^verbatim>\<open>{}\<close> and rejects every selector made from an id
  that is not plain; it stands for no particular engine.
\<close>

definition sample_runtime :: js_runtime where
  "sample_runtime =
     \<lparr>JSON_stringify = (\<lambda>v. Str ''{}''),
      String = (\<lambda>v. case v of JStr s \<Rightarrow> s | JBool True \<Rightarrow> ''true'' | JBool False \<Rightarrow> ''false''
                         | JNull \<Rightarrow> ''null'' | JUndefined \<Rightarrow> ''undefined''
                         | JNum n \<Rightarrow> (if n < 0 then ''-'' else []) @ decimal (nat \<bar>n\<bar>)
                         | w \<Rightarrow> ''[object Object]''),
      Object_values = map snd,
      String_inherited = (\<lambda>name. if name = ''__proto__'' then ''[object Object]''
                                  else if name = ''constructor''
                                  then ''function Object() { [native code] }''
                                  else ''function '' @ name @ ''() { [native code] }''),
      querySelector_tool_id = (\<lambda>i ns. Selector_error)\<rparr>"

text \<open>The state that the constructor of \<^verbatim>\<open>App\<close> sets up, on a page with all elements.\<close>

definition initial_app :: app where
  "initial_app =
     \<lparr>eventStream = None,
      currentProject = None,
      currentSession = None,
      isFirstMessageInSession = True,
      personalRules = [],
      attachedFiles = [],
      isStreaming = False,
      currentMessageEl = None,
      currentMessageText = [],
      activeSubagents = [],
      panels = [],
      pendingQuestionRequestId = None,
      isQuestionPending = False,
      messageInput = Some \<lparr>ib_value = [], ib_placeholder = Placeholder_normal,
                            ib_highlight = False, ib_disabled = False\<rparr>,
      sendBtn_hidden = Some False,
      sendIconBtn_hidden = Some False,
      stopBtn_hidden = True,
      status = Status_ready,
      toasts = []\<rparr>"

text \<open>A project and a session are selected; nothing is streaming.\<close>

definition idle_app :: app where
  "idle_app = initial_app\<lparr>currentProject := Some ''/games/demo'', currentSession := Some ''ses_1'',
                          isFirstMessageInSession := False\<rparr>"

text \<open>The user has sent \<^verbatim>\<open>hello\<close>; the request to the server has not settled yet.\<close>

definition streaming_app :: app where
  "streaming_app =
     (case sendMessage_compose idle_app False ''hello'' [] of Go a u \<Rightarrow> a | Stop a \<Rightarrow> a)"

definition no_part :: part where
  "no_part = \<lparr>part_type = None, part_text = JUndefined, part_tool = None, part_id = None,
              part_state = None, part_reason = JUndefined, part_tokens = JUndefined\<rparr>"

definition no_properties :: properties where
  "no_properties = \<lparr>prop_part = None, prop_delta = JUndefined, prop_info = None, prop_id = None,
                    prop_questions = None, prop_error = JUndefined\<rparr>"

text \<open>An event of the given type and properties, without enhancement keys.\<close>

definition plain_event :: "string \<Rightarrow> properties \<Rightarrow> sse_event" where
  "plain_event ty pr =
     \<lparr>ev_type = Some ty, ev_properties = Some pr, ev_is_subagent = False,
      ev_subagent_type = JUndefined, ev_subagent_description = JUndefined,
      ev_subagent_parsed = None\<rparr>"

text \<open>\<^verbatim>\<open>message.part.updated\<close> for a text part with the given delta and full text.\<close>

definition text_event :: "jsval \<Rightarrow> jsval \<Rightarrow> sse_event" where
  "text_event delta full =
     plain_event ''message.part.updated''
       (no_properties\<lparr>prop_part := Some (no_part\<lparr>part_type := Some ''text'', part_text := full\<rparr>),
                      prop_delta := delta\<rparr>)"

text \<open>\<^verbatim>\<open>message.part.updated\<close> for a tool part.\<close>

definition tool_part :: "string \<Rightarrow> string \<Rightarrow> tool_state \<Rightarrow> part" where
  "tool_part i tool st =
     no_part\<lparr>part_type := Some ''tool'', part_tool := Some tool, part_id := Some i,
             part_state := Some st\<rparr>"

definition tool_event :: "string \<Rightarrow> string \<Rightarrow> tool_state \<Rightarrow> sse_event" where
  "tool_event i tool st =
     plain_event ''message.part.updated'' (no_properties\<lparr>prop_part := Some (tool_part i tool st)\<rparr>)"

text \<open>\<^verbatim>\<open>message.updated\<close> with the given info.\<close>

definition message_updated_event :: "info \<Rightarrow> sse_event" where
  "message_updated_event i = plain_event ''message.updated'' (no_properties\<lparr>prop_info := Some i\<rparr>)"

text \<open>\<^verbatim>\<open>question.asked\<close> with the given request id and questions.\<close>

definition question_event :: "string \<Rightarrow> question list \<Rightarrow> sse_event" where
  "question_event i qs =
     plain_event ''question.asked'' (no_properties\<lparr>prop_id := Some i, prop_questions := Some qs\<rparr>)"

text \<open>The text that one text event adds to the accumulated text of the message.\<close>

definition delta_text :: "js_runtime \<Rightarrow> jsval \<Rightarrow> string" where
  "delta_text rt delta =
     (if truthy delta
      then (case stringify_if_object rt delta of
              Inl e \<Rightarrow> []
            | Inr v \<Rightarrow> if truthy v then to_str rt v else [])
      else [])"

text \<open>The application of a step that ended or goes on.\<close>

fun flow_app :: "'a flow \<Rightarrow> app" where
  "flow_app (Stop a) = a"
| "flow_app (Go a x) = a"

definition sample_info :: "string \<Rightarrow> jsval \<Rightarrow> info" where
  "sample_info role finish =
     \<lparr>info_role = Some role, info_finish = finish, info_tokens = JNum 42, info_cost = JNum 0\<rparr>"

definition sample_questions :: "question list" where
  "sample_questions =
     [\<lparr>q_header = Some ''Hero'', q_question = Some ''Who is the hero?'',
       q_options = [''Cat'', ''Dog''], q_multiple = False\<rparr>,
      \<lparr>q_header = None, q_question = Some ''Which colours?'',
       q_options = [''Red'', ''Blue''], q_multiple = True\<rparr>,
      \<lparr>q_header = Some ''Name'', q_question = Some ''Name of the game?'',
       q_options = [], q_multiple = False\<rparr>]"

text \<open>The assistant has asked the sample questions during the streaming of its message.\<close>

definition asked_app :: app where
  "asked_app =
     onmessage sample_runtime 0 streaming_app (Message (question_event ''que_1'' sample_questions))"

text \<open>The user has then typed a message into the input box instead of answering.\<close>

definition typed_app :: app where
  "typed_app =
     asked_app\<lparr>messageInput :=
                 map_option (\<lambda>ib. ib\<lparr>ib_value := ''never mind''\<rparr>) (messageInput asked_app)\<rparr>"

text \<open>The data object that the decoder builds for a tool part with an id.\<close>

definition tool_data :: "string \<Rightarrow> string \<Rightarrow> tool_state \<Rightarrow> toolData" where
  "tool_data i tool st =
     \<lparr>td_id = i, td_tool = Some tool, td_status = st_status st, td_input = st_input st,
      td_input_questions = st_input_questions st, td_output = st_output st,
      td_title = st_title st, td_error = st_error st\<rparr>"


text \<open>The statuses at which the decoder and the application stop tracking a sub-agent.\<close>

definition terminal :: "lifecycle \<Rightarrow> bool" where
  "terminal k = (k = Completed \<or> k = Failed)"


definition task_state :: "string \<Rightarrow> tool_state" where
  "task_state st =
     \<lparr>st_status = Some st,
      st_input = JObj [(''subagent_type'', JStr ''explore''), (''description'', JStr ''Find sprites'')],
      st_input_questions = None, st_output = JUndefined, st_title = JUndefined,
      st_error = JUndefined\<rparr>"

text \<open>The data object that the decoder builds from \<^const>\<open>task_state\<close>.\<close>

definition task_data :: "string \<Rightarrow> string option \<Rightarrow> subagentData" where
  "task_data i st =
     \<lparr>sd_id = i, sd_status = st, sd_subagentType = JStr ''explore'',
      sd_description = JStr ''Find sprites'', sd_prompt = JStr [], sd_output = JStr [],
      sd_title = JStr [], sd_error = JNull, sd_parsed = None\<rparr>"

text \<open>The sub-agent \<^verbatim>\<open>a1\<close> has gone from pending over running to completed.\<close>

definition completed_app :: app where
  "completed_app = run_frames sample_runtime streaming_app
     [(0, Message (tool_event ''a1'' ''task'' (task_state ''pending''))),
      (1, Message (tool_event ''a1'' ''task'' (task_state ''running''))),
      (2, Message (tool_event ''a1'' ''task'' (task_state ''completed'')))]"

text \<open>The ids that the tool elements of a message carry, in document order.\<close>

fun tool_ids :: "node list \<Rightarrow> string list" where
  "tool_ids [] = []"
| "tool_ids (ToolNode e # ns) =
     (case el_toolId e of Some i \<Rightarrow> i # tool_ids ns | None \<Rightarrow> tool_ids ns)"
| "tool_ids (n # ns) = tool_ids ns"

definition tool_ids_unique :: "app \<Rightarrow> bool" where
  "tool_ids_unique a =
     (case currentMessageEl a of None \<Rightarrow> True | Some ns \<Rightarrow> distinct (tool_ids ns))"


text \<open>A question tool call whose input carries the sample questions.\<close>

definition question_tool_data :: toolData where
  "question_tool_data =
     \<lparr>td_id = ''q1'', td_tool = Some ''question'', td_status = Some ''running'',
      td_input = JObj [(''questions'', JArr [])], td_input_questions = Some sample_questions,
      td_output = JUndefined, td_title = JUndefined, td_error = JUndefined\<rparr>"




text \<open>A value that \<^verbatim>\<open>String\<close> cannot convert, as the output of a call and as the type of a task.\<close>

definition unprintable :: jsval where
  "unprintable = JObj [(''toString'', JNum 1)]"


definition unprintable_type_state :: tool_state where
  "unprintable_type_state =
     (task_state ''running'')\<lparr>st_input := JObj [(''subagent_type'', unprintable)]\<rparr>"

text \<open>The sub-agent \<^verbatim>\<open>a1\<close> has gone from pending to running.\<close>

definition running_app :: app where
  "running_app = run_frames sample_runtime streaming_app
     [(0, Message (tool_event ''a1'' ''task'' (task_state ''pending''))),
      (1, Message (tool_event ''a1'' ''task'' (task_state ''running'')))]"

text \<open>The text that the text block of a message shows, if the message has one.\<close>

fun shown_text :: "node list \<Rightarrow> string option" where
  "shown_text [] = None"
| "shown_text (TextNode t # ns) = Some t"
| "shown_text (n # ns) = shown_text ns"

text \<open>The current message has a text block, and it shows the accumulated text.\<close>

definition text_rendered :: "app \<Rightarrow> bool" where
  "text_rendered a =
     (case currentMessageEl a of
        None \<Rightarrow> False
      | Some ns \<Rightarrow> shown_text ns = Some (currentMessageText a))"

text \<open>
  The deltas that reach \<^verbatim>\<open>appendTextToMessage\<close>: the truthy ones (not absent,
  \<^verbatim>\<open>null\<close>, \<^verbatim>\<open>false\<close>, 0 or the empty string) on which \<^verbatim>\<open>JSON.stringify\<close> does not
  throw.
\<close>

definition reaches_renderer :: "js_runtime \<Rightarrow> jsval \<Rightarrow> bool" where
  "reaches_renderer rt delta =
     (truthy delta \<and> (case stringify_if_object rt delta of Inl e \<Rightarrow> False | Inr v \<Rightarrow> True))"

text \<open>
  The part of an event that \<^verbatim>\<open>handleEvent\<close> and \<^verbatim>\<open>handlePartUpdated\<close> route to
  \<^verbatim>\<open>handleSubagentEvent\<close>, if they do.
\<close>

definition subagent_part :: "sse_event \<Rightarrow> part option" where
  "subagent_part ev =
     (if ev_type ev = Some ''message.part.updated'' then
        (case ev_properties ev of
           None \<Rightarrow> None
         | Some pr \<Rightarrow>
             (case prop_part pr of
                None \<Rightarrow> None
              | Some p \<Rightarrow>
                  if part_type p = Some ''tool'' \<and> (ev_is_subagent ev \<or> part_tool p = Some ''task'')
                  then Some p else None))
      else None)"

text \<open>A task whose output is an object, and a question whose header names an inherited member.\<close>

definition object_output_state :: tool_state where
  "object_output_state = (task_state ''completed'')\<lparr>st_output := JObj [(''files'', JNum 3)]\<rparr>"

definition constructor_question :: question where
  "constructor_question =
     \<lparr>q_header = Some ''constructor'', q_question = Some ''Which constructor?'',
      q_options = [''Cat'', ''Dog''], q_multiple = False\<rparr>"

section \<open>Helper lemmas\<close>

lemma js_error_eq [simp]: "(e :: js_error) = TypeError"
  by (cases e) simp

lemma streaming_app_eval:
  "streaming_app = idle_app\<lparr>currentMessageEl := Some [Indicator], isStreaming := True,
      sendBtn_hidden := Some True, sendIconBtn_hidden := Some True, stopBtn_hidden := False,
      status := Status_generating,
      eventStream := Some \<lparr>es_connected = False, es_activeSubagents = []\<rparr>\<rparr>"
  by (simp add: streaming_app_def sendMessage_compose_def idle_app_def initial_app_def
      startAssistantMessage_def show_stop_button_def connectEventStream_def)

lemma run_frames_Nil: "run_frames rt a [] = a"
  by (simp add: run_frames_def)

lemma run_frames_Cons:
  "run_frames rt a ((now, fr) # frs) = run_frames rt (onmessage rt now a fr) frs"
  by (simp add: run_frames_def)

subsection \<open>escapeHtml\<close>

lemma replace_all_append:
  "replace_all c r (xs @ ys) = replace_all c r xs @ replace_all c r ys"
  by (simp add: replace_all_def)

lemma replace_all_concat_map:
  "replace_all c r (concat (map f s)) = concat (map (\<lambda>x. replace_all c r (f x)) s)"
  by (induction s) (simp_all add: replace_all_append, simp add: replace_all_def)

lemma escape_chain:
  "replace_all (CHR 0x27) ''&#039;''
     (replace_all (CHR 0x22) ''&quot;''
       (replace_all (CHR ''>'') ''&gt;''
         (replace_all (CHR ''<'') ''&lt;''
           (replace_all (CHR ''&'') ''&amp;'' s)))) = concat (map esc_char s)"
proof -
  have "replace_all (CHR ''&'') ''&amp;'' s =
          concat (map (\<lambda>x. if x = CHR ''&'' then ''&amp;'' else [x]) s)"
    by (simp add: replace_all_def)
  then show ?thesis
    apply (simp only: replace_all_concat_map)
    apply (rule arg_cong [where f = concat])
    apply (rule map_cong [OF refl])
    apply (simp add: esc_char_def replace_all_def)
    done
qed

lemma esc_char_cases:
  "esc_char c \<in> set entities \<or>
   (esc_char c = [c] \<and> c \<notin> {CHR ''&'', CHR ''<'', CHR ''>'', CHR 0x22, CHR 0x27})"
  by (simp add: esc_char_def entities_def)

lemma entity_chars:
  "e \<in> set entities \<Longrightarrow> set e \<inter> {CHR ''<'', CHR ''>'', CHR 0x22, CHR 0x27} = {}"
  by (auto simp: entities_def)

lemma entity_amp:
  "e \<in> set entities \<Longrightarrow> i < length e \<Longrightarrow> e ! i = CHR ''&'' \<Longrightarrow> i = 0"
  apply (auto simp: entities_def)
  apply (simp_all add: nth_Cons' split: if_splits)
  done

lemma concat_esc_no_markup:
  "set (concat (map esc_char s)) \<inter> {CHR ''<'', CHR ''>'', CHR 0x22, CHR 0x27} = {}"
proof (induction s)
  case Nil
  then show ?case by simp
next
  case (Cons c s)
  have "set (esc_char c) \<inter> {CHR ''<'', CHR ''>'', CHR 0x22, CHR 0x27} = {}"
    using esc_char_cases [of c] entity_chars [of "esc_char c"] by auto
  with Cons show ?case by auto
qed

lemma concat_esc_amp:
  "i < length (concat (map esc_char s)) \<Longrightarrow> concat (map esc_char s) ! i = CHR ''&'' \<Longrightarrow>
   \<exists>e \<in> set entities. take (length e) (drop i (concat (map esc_char s))) = e"
proof (induction s arbitrary: i)
  case Nil
  then show ?case by simp
next
  case (Cons c s)
  let ?h = "esc_char c" and ?t = "concat (map esc_char s)"
  show ?case
  proof (cases "i < length ?h")
    case True
    with Cons.prems have at: "?h ! i = CHR ''&''" by (simp add: nth_append)
    from esc_char_cases [of c] show ?thesis
    proof
      assume ent: "?h \<in> set entities"
      from ent True at have "i = 0" by (rule entity_amp)
      with ent show ?thesis by (intro bexI [of _ "esc_char c"]) simp_all
    next
      assume "?h = [c] \<and> c \<notin> {CHR ''&'', CHR ''<'', CHR ''>'', CHR 0x22, CHR 0x27}"
      with True at show ?thesis by simp
    qed
  next
    case False
    with Cons.prems have "i - length ?h < length ?t" and "?t ! (i - length ?h) = CHR ''&''"
      by (simp_all add: nth_append)
    then obtain e where "e \<in> set entities" "take (length e) (drop (i - length ?h) ?t) = e"
      using Cons.IH by blast
    with False show ?thesis by auto
  qed
qed

subsection \<open>Text events\<close>

lemma text_event_step:
  assumes "eventStream a = Some es"
  shows "currentMessageText (onmessage rt now a (Message (text_event d t))) =
           currentMessageText a @ delta_text rt d \<and>
         eventStream (onmessage rt now a (Message (text_event d t))) = Some es"
  using assms
  by (cases "stringify_if_object rt d")
     (auto simp: onmessage_def handleEvent_def text_event_def plain_event_def handlePartUpdated_def
       handleStreamEvent_def delta_text_def append_value_def Let_def no_properties_def no_part_def)

lemma asked_app_eval:
  "asked_app = streaming_app\<lparr>pendingQuestionRequestId := Some ''que_1'',
      currentMessageEl := Some [QuestionnaireNode sample_questions],
      isStreaming := False, sendBtn_hidden := Some False, sendIconBtn_hidden := Some False,
      stopBtn_hidden := True, status := Status_waiting_reply,
      messageInput := Some \<lparr>ib_value = [], ib_placeholder = Placeholder_question,
                            ib_highlight = True, ib_disabled = False\<rparr>,
      isQuestionPending := True\<rparr>"
  by (simp add: asked_app_def onmessage_def streaming_app_eval handleEvent_def question_event_def
      plain_event_def handleStreamEvent_def no_properties_def setInputQuestionMode_def
      show_send_buttons_def idle_app_def initial_app_def)

lemma decimal_small: "n < 10 \<Longrightarrow> decimal n = [''0123456789'' ! n]"
  by (simp add: decimal.simps)

lemma sample_String_JStr: "String sample_runtime (JStr s) = s"
  by (simp add: sample_runtime_def)

subsection \<open>message.updated\<close>

lemma message_updated_emits:
  "handleEvent es now (message_updated_event i) =
     Inr (if info_role i \<noteq> Some ''assistant'' \<or> \<not> truthy (info_finish i) then []
          else if info_finish i = JStr ''tool-calls'' then [Ev_message_tool_calls (info_tokens i)]
          else [Ev_message_complete (info_finish i) (info_tokens i) (info_cost i)], es)"
  by (simp add: handleEvent_def message_updated_event_def plain_event_def handleMessageUpdated_def
      no_properties_def)

lemma message_updated_step:
  assumes "eventStream a = Some es"
  shows "onmessage rt now a (Message (message_updated_event i)) =
     (if info_role i \<noteq> Some ''assistant'' \<or> \<not> truthy (info_finish i) then a
      else if info_finish i = JStr ''tool-calls'' then a\<lparr>status := Status_tools\<rparr>
      else (stopStreaming (cleanupAfterMessage
              (a\<lparr>currentMessageEl := removeStreamingIndicator (currentMessageEl a)\<rparr>)))
             \<lparr>status := Status_ready\<rparr>)"
  using assms
  by (simp add: onmessage_def message_updated_emits handleStreamEvent_def stopStreaming_def
      cleanupAfterMessage_def show_send_buttons_def)

subsection \<open>The pending question through the steps of sendMessage\<close>

lemma setInputQuestionMode_fields:
  "pendingQuestionRequestId (setInputQuestionMode a b) = pendingQuestionRequestId a"
  "currentProject (setInputQuestionMode a b) = currentProject a"
  "messageInput a \<noteq> None \<Longrightarrow> isQuestionPending (setInputQuestionMode a b) = b"
  "messageInput a = None \<Longrightarrow> setInputQuestionMode a b = a"
  "(messageInput (setInputQuestionMode a b) = None) = (messageInput a = None)"
  by (auto simp: setInputQuestionMode_def split: option.splits)

lemma prepare_question_state:
  "pendingQuestionRequestId (flow_app (sendMessage_prepare a c e)) = pendingQuestionRequestId a \<and>
   (isQuestionPending (flow_app (sendMessage_prepare a c e)) \<longrightarrow> isQuestionPending a) \<and>
   (currentProject a \<noteq> None \<and> messageInput a \<noteq> None \<longrightarrow>
      \<not> isQuestionPending (flow_app (sendMessage_prepare a c e)))"
  by (auto simp: sendMessage_prepare_def Let_def setInputQuestionMode_fields
      split: option.splits if_splits)

lemma session_question_state:
  "pendingQuestionRequestId (flow_app (sendMessage_session a cr)) = pendingQuestionRequestId a \<and>
   isQuestionPending (flow_app (sendMessage_session a cr)) = isQuestionPending a"
  by (auto simp: sendMessage_session_def split: outcome.splits option.splits)

lemma compose_question_state:
  "pendingQuestionRequestId (flow_app (sendMessage_compose a fi t fs)) = pendingQuestionRequestId a \<and>
   isQuestionPending (flow_app (sendMessage_compose a fi t fs)) = isQuestionPending a"
  by (auto simp: sendMessage_compose_def Let_def startAssistantMessage_def show_stop_button_def
      connectEventStream_def split: option.splits)

lemma processMessageResponse_question_state:
  "processMessageResponse rt a r = Inr a' \<Longrightarrow>
     pendingQuestionRequestId a' = pendingQuestionRequestId a \<and>
     isQuestionPending a' = isQuestionPending a"
  by (auto simp: processMessageResponse_def Let_def split: option.splits if_splits sum.splits)

lemma processMessageResponse_thrown_state:
  "processMessageResponse rt a r = Inl (e, a') \<Longrightarrow>
     pendingQuestionRequestId a' = pendingQuestionRequestId a \<and>
     isQuestionPending a' = isQuestionPending a"
  by (auto simp: processMessageResponse_def Let_def split: option.splits if_splits sum.splits)

lemma result_question_state:
  "pendingQuestionRequestId (sendMessage_result rt a rep) = pendingQuestionRequestId a \<and>
   isQuestionPending (sendMessage_result rt a rep) = isQuestionPending a"
  by (auto simp: sendMessage_result_def send_failed_def stopStreaming_def show_send_buttons_def
      dest: processMessageResponse_question_state processMessageResponse_thrown_state
      split: outcome.splits option.splits sum.splits)

lemma sendMessage_flow:
  "sendMessage rt a c e cr rep =
     (case sendMessage_prepare a c e of
        Stop a1 \<Rightarrow> a1
      | Go a1 x \<Rightarrow>
          (case sendMessage_session a1 cr of
             Stop a2 \<Rightarrow> a2
           | Go a2 u \<Rightarrow>
               (case sendMessage_compose a2 (c = None) (fst x) (snd x) of
                  Stop a3 \<Rightarrow> a3
                | Go a3 u' \<Rightarrow> sendMessage_result rt a3 rep)))"
  by (simp add: sendMessage_def split: flow.splits prod.splits)

lemma sendMessage_question_state:
  "pendingQuestionRequestId (sendMessage rt a c e cr rep) = pendingQuestionRequestId a \<and>
   (isQuestionPending (sendMessage rt a c e cr rep) \<longrightarrow> isQuestionPending a) \<and>
   (currentProject a \<noteq> None \<and> messageInput a \<noteq> None \<longrightarrow>
      \<not> isQuestionPending (sendMessage rt a c e cr rep))"
proof -
  note p = prepare_question_state [of a c e]
  show ?thesis
  proof (cases "sendMessage_prepare a c e")
    case (Stop a1)
    with p show ?thesis by (simp add: sendMessage_flow)
  next
    case g1: (Go a1 x)
    note s = session_question_state [of a1 cr]
    show ?thesis
    proof (cases "sendMessage_session a1 cr")
      case (Stop a2)
      with p s g1 show ?thesis by (simp add: sendMessage_flow)
    next
      case g2: (Go a2 u)
      note c = compose_question_state [of a2 "c = None" "fst x" "snd x"]
      show ?thesis
      proof (cases "sendMessage_compose a2 (c = None) (fst x) (snd x)")
        case (Stop a3)
        with p s c g1 g2 show ?thesis by (simp add: sendMessage_flow)
      next
        case g3: (Go a3 u')
        from p s c g1 g2 g3 result_question_state [of rt a3 rep]
        show ?thesis by (simp add: sendMessage_flow)
      qed
    qed
  qed
qed

lemma question_asked_state:
  "currentMessageEl a \<noteq> None \<Longrightarrow>
     pendingQuestionRequestId (handleStreamEvent rt now a (Ev_question_asked (Some pr))) = prop_id pr \<and>
     (prop_questions pr \<noteq> None \<and> messageInput a \<noteq> None \<longrightarrow>
        isQuestionPending (handleStreamEvent rt now a (Ev_question_asked (Some pr))))"
  by (auto simp: handleStreamEvent_def Let_def setInputQuestionMode_def show_send_buttons_def
      split: option.splits)

lemma submit_question_state:
  "(messageInput a \<noteq> None \<longrightarrow>
      \<not> isQuestionPending (submitQuestionnaire rt a answers questions cr rep res)) \<and>
   (truthy_str (pendingQuestionRequestId a) \<and> currentProject a \<noteq> None \<longrightarrow>
      pendingQuestionRequestId (submitQuestionnaire rt a answers questions cr rep res) = None)"
proof -
  let ?a1 = "setInputQuestionMode a False"
  have q: "messageInput a \<noteq> None \<Longrightarrow> \<not> isQuestionPending ?a1"
    by (simp add: setInputQuestionMode_fields)
  have f: "\<not> isQuestionPending ?a1 \<Longrightarrow> \<not> isQuestionPending (sendMessage rt ?a1 c None cr rep)" for c
    using sendMessage_question_state [of rt ?a1 c None cr rep] by blast
  have r: "pendingQuestionRequestId (submitQuestionnaire_reply b res) = None \<and>
           isQuestionPending (submitQuestionnaire_reply b res) = isQuestionPending b" for b
    by (cases res) (simp_all add: submitQuestionnaire_reply_def show_stop_button_def)
  show ?thesis
    using q f r
    by (auto simp: submitQuestionnaire_def submitQuestionnaire_begin_def Let_def
        setInputQuestionMode_fields
        split: stringify_result.splits option.splits)
qed

subsection \<open>The reply formatter\<close>

lemma formatAnswers_nth:
  "idx < length qs \<Longrightarrow>
     formatAnswers rt answers (Some qs) ! idx =
       format_entry rt answers (questionKey (qs ! idx) idx)"
  by (simp add: formatAnswers_def nth_enumerate_eq)

lemma format_entry_own:
  "map_of answers key = Some v \<Longrightarrow> format_entry rt answers key = format_answer rt v"
  by (simp add: format_entry_def)

lemma format_entry_missing:
  "map_of answers key = None \<Longrightarrow> key \<notin> set object_prototype_names \<Longrightarrow>
     format_entry rt answers key = []"
  by (simp add: format_entry_def format_answer_def)

lemma format_entry_inherited:
  "map_of answers key = None \<Longrightarrow> key \<in> set object_prototype_names \<Longrightarrow>
     format_entry rt answers key = [JStr (String_inherited rt key)]"
  by (simp add: format_entry_def)

lemma reply_format_own_keys:
  "length (formatAnswers rt answers (Some qs)) = length qs \<and>
   (\<forall>idx < length qs.
      formatAnswers rt answers (Some qs) ! idx =
        format_entry rt answers (questionKey (qs ! idx) idx)) \<and>
   (\<forall>idx < length qs.
      map_of answers (questionKey (qs ! idx) idx) = None \<and>
      questionKey (qs ! idx) idx \<notin> set object_prototype_names \<longrightarrow>
        formatAnswers rt answers (Some qs) ! idx = []) \<and>
   (truthy_str (pendingQuestionRequestId a) \<and> currentProject a \<noteq> None \<and>
    \<not> format_throws rt answers (Some qs) \<longrightarrow>
      (\<exists>a'. submitQuestionnaire_begin rt a answers (Some qs) =
              Submit_reply a' (formatAnswers rt answers (Some qs))))"
proof -
  have len: "length (formatAnswers rt answers (Some qs)) = length qs"
    by (simp add: formatAnswers_def)
  have reply: "\<exists>a'. submitQuestionnaire_begin rt a answers (Some qs) =
              Submit_reply a' (formatAnswers rt answers (Some qs))"
    if "truthy_str (pendingQuestionRequestId a)" "currentProject a \<noteq> None"
      "\<not> format_throws rt answers (Some qs)"
    using that
    by (auto simp: submitQuestionnaire_begin_def setInputQuestionMode_def Let_def
        split: option.splits)
  from len reply show ?thesis
    by (simp add: formatAnswers_nth format_entry_missing)
qed

lemma reply_format_sample:
  "formatAnswers sample_runtime
      [(''Hero'', JStr ''Cat''), (''Question 2'', JArr [JStr ''Red'', JStr ''Blue''])]
      (Some sample_questions) = [[JStr ''Cat''], [JStr ''Red'', JStr ''Blue''], []]"
  by (simp add: formatAnswers_def sample_questions_def questionKey_def truthy_str_def
      decimal_small format_entry_def format_answer_def sample_String_JStr
      object_prototype_names_def)

subsection \<open>Tool elements\<close>



lemma child_tool_Cons:
  "child_tool 0 (x # ns) = (case x of ToolNode e \<Rightarrow> Some e | other \<Rightarrow> None)"
  "child_tool (Suc n) (x # ns) = child_tool n ns"
  by (simp_all add: child_tool_def)


lemma first_tool_child:
  "first_tool i ns = Some n \<Longrightarrow>
     \<exists>e es. child_tool n ns = Some e \<and> tools_with i ns = e # es \<and>
            (\<forall>e'. el_toolId e' = el_toolId e \<longrightarrow>
                    tools_with i (ns[n := ToolNode e']) = e' # es)"
  by (induction i ns arbitrary: n rule: first_tool.induct)
     (auto simp: child_tool_Cons split: if_splits)






lemma app_eventStream_same: "eventStream a = Some es \<Longrightarrow> a\<lparr>eventStream := Some es\<rparr> = a"
  by simp

lemma tool_event_step:
  assumes "eventStream a = Some es" "tool \<noteq> ''task''" "i \<noteq> []"
  shows "onmessage rt now a (Message (tool_event i tool st)) =
           handleStreamEvent rt now a (Ev_tool (lifecycle_of (st_status st)) (tool_data i tool st))"
  using assms
  by (simp add: onmessage_def handleEvent_def tool_event_def tool_part_def plain_event_def
      handlePartUpdated_def no_properties_def no_part_def handleToolUpdate_def fallback_id_def
      tool_data_def
      app_eventStream_same)

subsection \<open>Sub-agents\<close>

lemma fallback_id_nonempty: "pre \<noteq> [] \<Longrightarrow> fallback_id pre i now \<noteq> []"
  by (simp add: fallback_id_def split: option.splits)

lemma subagent_data_fields:
  "sd_id (subagent_data now p ev) = fallback_id ''subagent-'' (part_id p) now"
  "sd_status (subagent_data now p ev) = st_status (state_of p)"
  by (simp_all add: subagent_data_def Let_def)

lemma subagent_part_routed:
  assumes "subagent_part ev = Some p"
  shows "handleEvent es now ev = handleSubagentEvent es now p ev"
proof -
  from assms obtain pr where "ev_type ev = Some ''message.part.updated''"
    and "ev_properties ev = Some pr" and "prop_part pr = Some p"
    and "part_type p = Some ''tool''" and "ev_is_subagent ev \<or> part_tool p = Some ''task''"
    by (auto simp: subagent_part_def split: if_splits option.splits)
  then show ?thesis
    by (simp add: handleEvent_def handlePartUpdated_def)
qed

lemma decoder_subagent_throws:
  assumes "subagent_part ev = Some p" and "parseTaskOutput_throws (st_output (state_of p))"
  shows "handleEvent es now ev = Inl TypeError"
  using assms by (simp add: subagent_part_routed handleSubagentEvent_def Let_def)

lemma decoder_subagent_log_throws:
  assumes "subagent_part ev = Some p" and "\<not> parseTaskOutput_throws (st_output (state_of p))"
    and "lifecycle_of (st_status (state_of p)) \<noteq> Update"
    and "string_throws (sd_subagentType (subagent_data now p ev))"
  shows "handleEvent es now ev =
           Inr ([], es\<lparr>es_activeSubagents :=
                        AList.update (fallback_id ''subagent-'' (part_id p) now)
                          (subagent_data now p ev) (es_activeSubagents es)\<rparr>)"
  using assms by (simp add: subagent_part_routed handleSubagentEvent_def Let_def)

lemma decoder_subagent:
  assumes "subagent_part ev = Some p" and "\<not> parseTaskOutput_throws (st_output (state_of p))"
    and "lifecycle_of (st_status (state_of p)) = Update \<or>
         \<not> string_throws (sd_subagentType (subagent_data now p ev))"
  shows "\<exists>es'. handleEvent es now ev =
                 Inr ([Ev_subagent (lifecycle_of (st_status (state_of p))) (subagent_data now p ev)],
                      es') \<and>
               (terminal (lifecycle_of (st_status (state_of p))) \<longrightarrow>
                  map_of (es_activeSubagents es') (fallback_id ''subagent-'' (part_id p) now) = None)"
  using assms
  by (cases "lifecycle_of (st_status (state_of p))")
     (auto simp: subagent_part_routed handleSubagentEvent_def Let_def terminal_def delete_conv)

lemma subagent_keeps_stream:
  "eventStream (handleStreamEvent rt now a (Ev_subagent k d)) = eventStream a"
  by (cases k)
     (auto simp: handleStreamEvent_def handleSubagentComplete_def handleSubagentFailed_def
       handleSubagentStart_def handleSubagentUpdate_def Let_def addSubagentToMessage_def
       updateSubagentPanel_def split: option.splits)

lemma app_no_message:
  assumes "map_of (activeSubagents a) (sd_id d) = None" "currentMessageEl a = None"
  shows "panels (handleStreamEvent rt now a (Ev_subagent k d)) = panels a \<and>
         map_of (activeSubagents (handleStreamEvent rt now a (Ev_subagent k d))) (sd_id d) = None"
  using assms
  by (cases k)
     (auto simp: handleStreamEvent_def handleSubagentComplete_def handleSubagentFailed_def
       handleSubagentStart_def handleSubagentUpdate_def Let_def addSubagentToMessage_def)

lemma updateSubagentPanel_fields:
  "activeSubagents (updateSubagentPanel a n d) = activeSubagents a"
  "currentMessageEl (updateSubagentPanel a n d) = currentMessageEl a"
  by (simp_all add: updateSubagentPanel_def)

lemma app_terminal_untracked:
  "terminal k \<Longrightarrow> map_of (activeSubagents (handleStreamEvent rt now a (Ev_subagent k d))) (sd_id d) = None"
  by (auto simp: terminal_def handleStreamEvent_def handleSubagentComplete_def handleSubagentFailed_def
      Let_def delete_conv addSubagentToMessage_def split: option.splits)

lemma app_later_event:
  assumes "map_of (activeSubagents a) (sd_id d) = None" "currentMessageEl a \<noteq> None" "sd_id d \<noteq> []"
  shows "(k = Update \<longrightarrow> handleStreamEvent rt now a (Ev_subagent k d) = a) \<and>
         (k \<noteq> Update \<longrightarrow>
            panels (handleStreamEvent rt now a (Ev_subagent k d)) = panels a @ [new_panel d] \<and>
            map_of (activeSubagents (handleStreamEvent rt now a (Ev_subagent k d))) (sd_id d) =
              (if terminal k then None else Some (length (panels a))))"
  using assms
  by (cases k)
     (auto simp: terminal_def handleStreamEvent_def handleSubagentComplete_def
       handleSubagentFailed_def handleSubagentStart_def handleSubagentUpdate_def
       Let_def update_conv addSubagentToMessage_def split: option.splits)

lemmas task_run_defs =
  run_frames_Cons run_frames_Nil onmessage_def handleEvent_def tool_event_def tool_part_def
  plain_event_def handlePartUpdated_def no_properties_def no_part_def handleSubagentEvent_def
  state_of_def subagent_data_def
  parseTaskOutput_throws_def fallback_id_def task_state_def lifecycle_of_def js_or_def
  handleStreamEvent_def handleSubagentStart_def handleSubagentComplete_def
  handleSubagentFailed_def handleSubagentUpdate_def addSubagentToMessage_def
  updateSubagentPanel_def moveStreamingIndicatorToBottom_def new_panel_def
  streaming_app_eval idle_app_def initial_app_def AList.update.simps AList.delete_eq Let_def

lemma completed_app_eval:
  "completed_app = streaming_app\<lparr>currentMessageEl := Some [PanelNode 0, Indicator],
     panels := [\<lparr>pn_id = Some ''a1'', pn_status = Some ''completed'',
                 pn_subagentType = JStr ''explore'', pn_description = JStr ''Find sprites''\<rparr>],
     status := Status_processing\<rparr>"
  by (simp add: completed_app_def task_run_defs)

lemma running_app_eval:
  "running_app = streaming_app\<lparr>currentMessageEl := Some [PanelNode 0, Indicator],
     panels := [\<lparr>pn_id = Some ''a1'', pn_status = Some ''running'',
                 pn_subagentType = JStr ''explore'', pn_description = JStr ''Find sprites''\<rparr>],
     activeSubagents := [(''a1'', 0)],
     status := Status_subagent (JStr ''explore''),
     eventStream := Some \<lparr>es_connected = False,
                            es_activeSubagents = [(''a1'', task_data ''a1'' (Some ''running''))]\<rparr>\<rparr>"
  by (simp add: running_app_def task_run_defs task_data_def)

lemma subagent_part_task:
  "subagent_part (tool_event i ''task'' st) = Some (tool_part i ''task'' st)"
  by (simp add: subagent_part_def tool_event_def tool_part_def plain_event_def no_properties_def
      no_part_def)

lemma tool_part_fields:
  "state_of (tool_part i tool st) = st"
  "i \<noteq> [] \<Longrightarrow> fallback_id pre (part_id (tool_part i tool st)) now = i"
  by (simp_all add: state_of_def tool_part_def no_part_def fallback_id_def)

lemma compose_idle: "sendMessage_compose idle_app False ''hello'' [] = Go streaming_app ()"
  by (simp add: streaming_app_def sendMessage_compose_def Let_def)

subsection \<open>No two tool elements of a message carry the same id\<close>

lemma tool_ids_append: "tool_ids (xs @ ys) = tool_ids xs @ tool_ids ys"
  by (induction xs rule: tool_ids.induct) (simp_all split: option.splits)

lemma tool_ids_remove1_Indicator: "tool_ids (remove1 Indicator ns) = tool_ids ns"
  by (induction ns rule: tool_ids.induct) (simp_all split: option.splits)

lemma tool_ids_set_text: "tool_ids (set_text t ns) = tool_ids ns"
  by (induction t ns rule: set_text.induct) (simp_all split: option.splits)

lemma tool_ids_update_thinking: "tool_ids (update_thinking t ns) = tool_ids ns"
  by (induction t ns rule: update_thinking.induct) (simp_all split: option.splits)

lemma tool_ids_update_at:
  "child_tool n ns = Some e \<Longrightarrow> el_toolId e' = el_toolId e \<Longrightarrow>
     tool_ids (ns[n := ToolNode e']) = tool_ids ns"
proof (induction ns arbitrary: n)
  case Nil
  then show ?case by (simp add: child_tool_def)
next
  case (Cons x ns)
  show ?case
  proof (cases n)
    case 0
    with Cons.prems show ?thesis
      by (cases x) (simp_all add: child_tool_Cons split: option.splits)
  next
    case (Suc m)
    with Cons show ?thesis
      by (cases x) (simp_all add: child_tool_Cons split: option.splits)
  qed
qed

lemma first_tool_ids: "first_tool i ns = None \<longleftrightarrow> i \<notin> set (tool_ids ns)"
  by (induction i ns rule: first_tool.induct) (auto split: option.splits)

lemma tools_with_absent: "i \<notin> set (tool_ids ns) \<Longrightarrow> tools_with i ns = []"
  by (induction i ns rule: tools_with.induct) (auto split: option.splits)

lemma unique_tool_ids_bound: "distinct (tool_ids ns) \<Longrightarrow> length (tools_with i ns) \<le> 1"
  by (induction i ns rule: tools_with.induct) (auto simp: tools_with_absent split: option.splits)

lemma tool_ids_move:
  "moveStreamingIndicatorToBottom (Some ns) = Some ns' \<Longrightarrow> tool_ids ns' = tool_ids ns"
  by (auto simp: moveStreamingIndicatorToBottom_def tool_ids_append tool_ids_remove1_Indicator
      split: if_splits)

lemma unique_move:
  "tool_ids_unique (a\<lparr>currentMessageEl := moveStreamingIndicatorToBottom (Some ns)\<rparr>) =
     distinct (tool_ids ns)"
  by (auto simp: tool_ids_unique_def moveStreamingIndicatorToBottom_def tool_ids_append
      tool_ids_remove1_Indicator)

lemma unique_set:
  "tool_ids_unique (a\<lparr>currentMessageEl := Some ns\<rparr>) = distinct (tool_ids ns)"
  by (simp add: tool_ids_unique_def)

lemma handleToolEvent_unique:
  assumes "plain_id (td_id d)" and "tool_ids_unique a"
  shows "tool_ids_unique (handleToolEvent rt a d)"
proof (cases "currentMessageEl a")
  case None
  with assms show ?thesis
    by (simp add: handleToolEvent_def Let_def)
next
  case (Some ns)
  from assms Some have u: "distinct (tool_ids ns)"
    by (simp add: tool_ids_unique_def)
  show ?thesis
  proof (cases "first_tool (td_id d) ns")
    case None
    then have "td_id d \<notin> set (tool_ids ns)"
      by (simp add: first_tool_ids)
    with assms \<open>currentMessageEl a = Some ns\<close> None u show ?thesis
      by (simp add: handleToolEvent_def querySelector_tool_def Let_def unique_set
          unique_move tool_ids_append split: option.splits)
  next
    case (Some n)
    from first_tool_child [OF Some] obtain e where c: "child_tool n ns = Some e"
      by blast
    have "tool_ids (ns[n := ToolNode e']) = tool_ids ns" if "el_toolId e' = el_toolId e" for e'
      using c that by (rule tool_ids_update_at)
    then have "tool_ids (ns[n := ToolNode (updateToolStatus e (td_status d) (td_output d)
                                            (td_input d) (td_error d))]) = tool_ids ns"
      and "tool_ids (ns[n := ToolNode (updateToolStatus_thrown rt e (td_status d) (td_input d))]) =
             tool_ids ns"
      by (simp_all add: updateToolStatus_def updateToolStatus_thrown_def)
    with assms \<open>currentMessageEl a = Some ns\<close> Some c u show ?thesis
      by (simp add: handleToolEvent_def querySelector_tool_def Let_def unique_move unique_set)
  qed
qed

lemma subagent_unique:
  "tool_ids_unique a \<Longrightarrow> tool_ids_unique (handleSubagentStart now a d)"
  "tool_ids_unique a \<Longrightarrow> tool_ids_unique (handleSubagentComplete a d)"
  "tool_ids_unique a \<Longrightarrow> tool_ids_unique (handleSubagentFailed a d)"
  "tool_ids_unique a \<Longrightarrow> tool_ids_unique (handleSubagentUpdate a d)"
  by (auto simp: handleSubagentStart_def handleSubagentComplete_def handleSubagentFailed_def
      handleSubagentUpdate_def Let_def tool_ids_unique_def addSubagentToMessage_def
      updateSubagentPanel_def moveStreamingIndicatorToBottom_def tool_ids_append
      tool_ids_remove1_Indicator split: option.splits)

lemma handleStreamEvent_unique:
  assumes "\<And>k d. ev = Ev_tool k d \<Longrightarrow> plain_id (td_id d)" and "tool_ids_unique a"
  shows "tool_ids_unique (handleStreamEvent rt now a ev)"
proof (cases ev)
  case (Ev_tool k d)
  with assms show ?thesis
    by (simp add: handleStreamEvent_def handleToolEvent_unique)
next
  case (Ev_subagent k d)
  with assms show ?thesis
    by (cases k) (simp_all add: handleStreamEvent_def subagent_unique)
qed (use assms(2) in \<open>auto simp: handleStreamEvent_def tool_ids_unique_def appendTextToMessage_def
      addThinkingSection_def tool_ids_set_text tool_ids_update_thinking Let_def
      removeStreamingIndicator_def tool_ids_remove1_Indicator stopStreaming_def
      cleanupAfterMessage_def show_send_buttons_def setInputQuestionMode_def tool_ids_append
      split: option.splits sum.splits\<close>)

lemma startAssistantMessage_unique: "tool_ids_unique (startAssistantMessage a)"
  by (simp add: tool_ids_unique_def startAssistantMessage_def)


lemma compose_unique: "sendMessage_compose a from_input t fs = Go a' u \<Longrightarrow> tool_ids_unique a'"
  by (auto simp: sendMessage_compose_def Let_def tool_ids_unique_def startAssistantMessage_def
      show_stop_button_def connectEventStream_def split: if_splits option.splits)

lemma shown_text_set_text: "shown_text (set_text t ns) = Some t"
  by (induction t ns rule: set_text.induct) simp_all

lemma text_event_rendered:
  assumes "eventStream a = Some es" "currentMessageEl a \<noteq> None"
  shows "currentMessageEl (onmessage rt now a (Message (text_event d t))) \<noteq> None \<and>
         (reaches_renderer rt d \<or> text_rendered a \<longrightarrow>
            text_rendered (onmessage rt now a (Message (text_event d t))))"
  using assms
  by (cases "stringify_if_object rt d")
     (auto simp: onmessage_def handleEvent_def text_event_def plain_event_def handlePartUpdated_def
       handleStreamEvent_def append_value_def Let_def no_properties_def no_part_def
       text_rendered_def reaches_renderer_def appendTextToMessage_def shown_text_set_text
       split: option.splits)

section \<open>The claims\<close>

text \<open>
  C10. \<^const>\<open>escapeHtml\<close> is defined on every value (\<^verbatim>\<open>null\<close>, \<^verbatim>\<open>undefined\<close>, objects
  and other non-strings included, also when \<^verbatim>\<open>JSON.stringify\<close> throws) and returns a
  string. The string holds no \<^verbatim>\<open><\<close>, no \<^verbatim>\<open>>\<close>, no double quote and no single quote,
  and wherever it holds \<^verbatim>\<open>&\<close>, one of the five character references that the function
  writes starts there.
\<close>

theorem escapeHtml_safe:
  "set (escapeHtml rt v) \<inter> {CHR ''<'', CHR ''>'', CHR 0x22, CHR 0x27} = {} \<and>
   (\<forall>i < length (escapeHtml rt v). escapeHtml rt v ! i = CHR ''&'' \<longrightarrow>
      (\<exists>e \<in> set entities. take (length e) (drop i (escapeHtml rt v)) = e))"
proof -
  have "\<exists>s. escapeHtml rt v = concat (map esc_char s)"
  proof (cases "loosely_null v")
    case True
    then have "escapeHtml rt v = concat (map esc_char [])" by (simp add: escapeHtml_def)
    then show ?thesis by blast
  next
    case False
    then show ?thesis by (simp only: escapeHtml_def Let_def escape_chain if_False) blast
  qed
  then obtain s where "escapeHtml rt v = concat (map esc_char s)" ..
  then show ?thesis
    using concat_esc_no_markup [of s] concat_esc_amp [of _ s] by simp
qed

theorem escapeHtml_safe_witness:
  "escapeHtml sample_runtime (JStr ''<b>&'') = ''&lt;b&gt;&amp;'' \<and>
   set (escapeHtml sample_runtime (JStr ''<b>&'')) \<inter> {CHR ''<'', CHR ''>'', CHR 0x22, CHR 0x27} = {} \<and>
   (\<exists>e \<in> set entities. take (length e) (drop 9 (escapeHtml sample_runtime (JStr ''<b>&''))) = e)"
proof -
  have v: "escapeHtml sample_runtime (JStr ''<b>&'') = ''&lt;b&gt;&amp;''"
    by (simp add: escapeHtml_def replace_all_def)
  from escapeHtml_safe [of sample_runtime "JStr ''<b>&''"]
  have "\<forall>i < length (escapeHtml sample_runtime (JStr ''<b>&'')).
          escapeHtml sample_runtime (JStr ''<b>&'') ! i = CHR ''&'' \<longrightarrow>
          (\<exists>e \<in> set entities. take (length e) (drop i (escapeHtml sample_runtime (JStr ''<b>&''))) = e)"
    and n: "set (escapeHtml sample_runtime (JStr ''<b>&'')) \<inter> {CHR ''<'', CHR ''>'', CHR 0x22, CHR 0x27} = {}"
    by blast+
  then have "9 < length (escapeHtml sample_runtime (JStr ''<b>&'')) \<longrightarrow>
          escapeHtml sample_runtime (JStr ''<b>&'') ! 9 = CHR ''&'' \<longrightarrow>
          (\<exists>e \<in> set entities. take (length e) (drop 9 (escapeHtml sample_runtime (JStr ''<b>&''))) = e)"
    by blast
  moreover have "9 < length (escapeHtml sample_runtime (JStr ''<b>&''))"
    and "escapeHtml sample_runtime (JStr ''<b>&'') ! 9 = CHR ''&''"
    by (simp_all add: v)
  ultimately show ?thesis using v n by blast
qed

text \<open>
  C5, as the code has it. An event whose type is none of the ten that \<^verbatim>\<open>handleEvent\<close>
  names is logged and dropped by the decoder: \<^verbatim>\<open>onEvent\<close> is not called, and neither
  the stream's state nor the application's changes.
\<close>

theorem unknown_type_dropped:
  "ev_type ev \<notin> Some ` set recognized_types \<Longrightarrow>
     handleEvent es now ev = Inr ([], es) \<and> onmessage rt now a (Message ev) = a"
  by (auto simp: handleEvent_def onmessage_def recognized_types_def Let_def split: option.splits)

theorem unknown_type_dropped_witness:
  "ev_type (plain_event ''session.compacted'' no_properties) \<notin> Some ` set recognized_types \<and>
   handleEvent \<lparr>es_connected = True, es_activeSubagents = []\<rparr> 7
       (plain_event ''session.compacted'' no_properties)
     = Inr ([], \<lparr>es_connected = True, es_activeSubagents = []\<rparr>) \<and>
   onmessage sample_runtime 7 streaming_app (Message (plain_event ''session.compacted'' no_properties))
     = streaming_app"
proof -
  have h: "ev_type (plain_event ''session.compacted'' no_properties) \<notin> Some ` set recognized_types"
    by (simp add: plain_event_def recognized_types_def)
  from unknown_type_dropped [OF h] h show ?thesis by blast
qed

text \<open>
  C5 as stated fails: for the unknown type \<^verbatim>\<open>session.compacted\<close> the decoder calls
  \<^verbatim>\<open>onEvent\<close> no time; nothing is passed on.
\<close>

theorem unknown_type_not_forwarded:
  "handleEvent \<lparr>es_connected = True, es_activeSubagents = []\<rparr> 0
       (plain_event ''session.compacted'' no_properties)
     = Inr ([], \<lparr>es_connected = True, es_activeSubagents = []\<rparr>)"
  by (simp add: handleEvent_def plain_event_def)

text \<open>
  C1, as the code has it. While a stream is open, a text event with a truthy delta (not
  absent, \<^verbatim>\<open>null\<close>, \<^verbatim>\<open>false\<close>, 0 or the empty string) appends the delta (an object as
  its JSON text, nothing when \<^verbatim>\<open>JSON.stringify\<close> throws on it) to the accumulated text
  of the message; a text event with any other delta leaves the accumulated text as it is,
  whatever its full \<^verbatim>\<open>part.text\<close>. So after any run of text events the accumulated text
  is the text before the run followed by the deltas in order. And when there is a current
  message, its text block (made if it was missing) shows the accumulated text after the run,
  provided one delta of the run reached the renderer or the block showed the accumulated
  text before the run.
\<close>

theorem text_deltas_accumulate:
  assumes "eventStream a \<noteq> None"
  shows "currentMessageText
           (run_frames rt a (map (\<lambda>(now, delta, full). (now, Message (text_event delta full))) evs)) =
         currentMessageText a @ concat (map (\<lambda>(now, delta, full). delta_text rt delta) evs) \<and>
         (currentMessageEl a \<noteq> None \<and>
          (text_rendered a \<or> (\<exists>(now, delta, full) \<in> set evs. reaches_renderer rt delta)) \<longrightarrow>
            text_rendered
              (run_frames rt a (map (\<lambda>(now, delta, full). (now, Message (text_event delta full))) evs)))"
  using assms
proof (induction evs arbitrary: a)
  case Nil
  then show ?case by (simp add: run_frames_def)
next
  case (Cons e evs)
  obtain now delta full where e: "e = (now, delta, full)" by (cases e)
  from Cons.prems obtain es where es: "eventStream a = Some es" by blast
  let ?a' = "onmessage rt now a (Message (text_event delta full))"
  let ?run = "run_frames rt ?a'
                (map (\<lambda>(now, delta, full). (now, Message (text_event delta full))) evs)"
  from text_event_step [OF es, of rt now delta full]
  have acc: "currentMessageText ?a' = currentMessageText a @ delta_text rt delta"
    and str: "eventStream ?a' \<noteq> None" by simp_all
  have ren: "currentMessageEl a \<noteq> None \<Longrightarrow>
               currentMessageEl ?a' \<noteq> None \<and>
               (reaches_renderer rt delta \<or> text_rendered a \<longrightarrow> text_rendered ?a')"
    by (rule text_event_rendered [OF es])
  from Cons.IH [OF str]
  have ih1: "currentMessageText ?run =
               currentMessageText ?a' @ concat (map (\<lambda>(now, delta, full). delta_text rt delta) evs)"
    and ih2: "currentMessageEl ?a' \<noteq> None \<and>
              (text_rendered ?a' \<or> (\<exists>(now, delta, full) \<in> set evs. reaches_renderer rt delta)) \<longrightarrow>
                text_rendered ?run"
    by simp_all
  have "text_rendered ?run"
    if "currentMessageEl a \<noteq> None"
      and "text_rendered a \<or> reaches_renderer rt delta \<or>
           (\<exists>(now, delta, full) \<in> set evs. reaches_renderer rt delta)"
    using that ren ih2 by blast
  with acc ih1 show ?case
    by (auto simp: e run_frames_Cons)
qed

theorem text_deltas_accumulate_witness:
  "eventStream streaming_app \<noteq> None \<and> currentMessageEl streaming_app \<noteq> None \<and>
   \<not> text_rendered streaming_app \<and>
   currentMessageText
     (run_frames sample_runtime streaming_app
        [(0, Message (text_event (JStr ''Hel'') JUndefined)),
         (1, Message (text_event JUndefined (JStr ''Hello''))),
         (2, Message (text_event (JStr ''lo'') JUndefined))]) = ''Hello'' \<and>
   text_rendered
     (run_frames sample_runtime streaming_app
        [(0, Message (text_event (JStr ''Hel'') JUndefined)),
         (1, Message (text_event JUndefined (JStr ''Hello''))),
         (2, Message (text_event (JStr ''lo'') JUndefined))])"
proof -
  have s: "eventStream streaming_app \<noteq> None" "currentMessageEl streaming_app \<noteq> None"
    "\<not> text_rendered streaming_app" "currentMessageText streaming_app = []"
    by (simp_all add: streaming_app_eval text_rendered_def idle_app_def initial_app_def)
  have d: "delta_text sample_runtime (JStr ''Hel'') = ''Hel''"
    "delta_text sample_runtime (JStr ''lo'') = ''lo''"
    "delta_text sample_runtime JUndefined = []"
    "reaches_renderer sample_runtime (JStr ''Hel'')"
    by (simp_all add: delta_text_def reaches_renderer_def stringify_if_object_def)
  from text_deltas_accumulate [OF s(1), of sample_runtime
      "[(0, JStr ''Hel'', JUndefined), (1, JUndefined, JStr ''Hello''), (2, JStr ''lo'', JUndefined)]"]
  show ?thesis
    using s by (simp add: d)
qed

text \<open>
  C1 as stated fails: the deltas \<^verbatim>\<open>Hel\<close>, \<^verbatim>\<open>lo\<close> accumulate to \<^verbatim>\<open>Hello\<close>, and the same
  message sent as the full texts \<^verbatim>\<open>Hel\<close>, \<^verbatim>\<open>Hello\<close> without deltas accumulates to the
  empty text: a full text does not replace the accumulated text.
\<close>

theorem full_text_does_not_replace:
  "currentMessageText
     (run_frames sample_runtime streaming_app
        [(0, Message (text_event (JStr ''Hel'') JUndefined)),
         (1, Message (text_event (JStr ''lo'') JUndefined))]) = ''Hello'' \<and>
   currentMessageText
     (run_frames sample_runtime streaming_app
        [(0, Message (text_event JUndefined (JStr ''Hel''))),
         (1, Message (text_event JUndefined (JStr ''Hello'')))]) = []"
proof -
  obtain es where s: "eventStream streaming_app = Some es"
    by (simp add: streaming_app_eval)
  have a: "currentMessageText streaming_app = []"
    by (simp add: streaming_app_eval idle_app_def initial_app_def)
  have d: "delta_text sample_runtime (JStr ''Hel'') = ''Hel''"
    "delta_text sample_runtime (JStr ''lo'') = ''lo''"
    "delta_text sample_runtime JUndefined = []"
    by (simp_all add: delta_text_def stringify_if_object_def)
  let ?d1 = "onmessage sample_runtime 0 streaming_app (Message (text_event (JStr ''Hel'') JUndefined))"
  let ?f1 = "onmessage sample_runtime 0 streaming_app (Message (text_event JUndefined (JStr ''Hel'')))"
  from text_event_step [OF s, of sample_runtime 0 "JStr ''Hel''" JUndefined]
  have d1: "currentMessageText ?d1 = ''Hel''" "eventStream ?d1 = Some es"
    by (simp_all add: a d)
  from text_event_step [OF d1(2), of sample_runtime 1 "JStr ''lo''" JUndefined]
  have d2: "currentMessageText (onmessage sample_runtime 1 ?d1
              (Message (text_event (JStr ''lo'') JUndefined))) = ''Hello''"
    by (simp add: d1 d)
  from text_event_step [OF s, of sample_runtime 0 JUndefined "JStr ''Hel''"]
  have f1: "currentMessageText ?f1 = []" "eventStream ?f1 = Some es"
    by (simp_all add: a d)
  from text_event_step [OF f1(2), of sample_runtime 1 JUndefined "JStr ''Hello''"]
  have f2: "currentMessageText (onmessage sample_runtime 1 ?f1
              (Message (text_event JUndefined (JStr ''Hello'')))) = []"
    by (simp add: f1 d)
  from d2 f2 show ?thesis
    by (simp add: run_frames_Cons run_frames_Nil)
qed

text \<open>
  C2, as the code has it. For a \<^verbatim>\<open>message.updated\<close> event on an open stream: an info
  whose role is not \<^verbatim>\<open>assistant\<close> changes nothing. For the role \<^verbatim>\<open>assistant\<close>, the finish
  value \<^verbatim>\<open>tool-calls\<close> emits the tool-calls signal and only sets the status line (the
  message is not complete, streaming goes on); any other truthy finish value emits the
  completion signal with the finish, token and cost data, after which streaming is off, the
  stream is dropped, the send buttons are back, the status is ready, the tracked sub-agents
  are cleared and the streaming indicator is gone; a falsy finish value (absent, \<^verbatim>\<open>null\<close>,
  the empty string) changes nothing.
\<close>

theorem message_updated_effect:
  assumes "eventStream a = Some es"
  shows
   "(info_role i \<noteq> Some ''assistant'' \<longrightarrow>
       onmessage rt now a (Message (message_updated_event i)) = a) \<and>
    (info_role i = Some ''assistant'' \<and> info_finish i = JStr ''tool-calls'' \<longrightarrow>
       handleEvent es now (message_updated_event i) = Inr ([Ev_message_tool_calls (info_tokens i)], es) \<and>
       onmessage rt now a (Message (message_updated_event i)) = a\<lparr>status := Status_tools\<rparr>) \<and>
    (info_role i = Some ''assistant'' \<and> truthy (info_finish i) \<and> info_finish i \<noteq> JStr ''tool-calls'' \<longrightarrow>
       handleEvent es now (message_updated_event i) =
         Inr ([Ev_message_complete (info_finish i) (info_tokens i) (info_cost i)], es) \<and>
       \<not> isStreaming (onmessage rt now a (Message (message_updated_event i))) \<and>
       eventStream (onmessage rt now a (Message (message_updated_event i))) = None \<and>
       stopBtn_hidden (onmessage rt now a (Message (message_updated_event i))) \<and>
       status (onmessage rt now a (Message (message_updated_event i))) = Status_ready \<and>
       activeSubagents (onmessage rt now a (Message (message_updated_event i))) = [] \<and>
       currentMessageEl (onmessage rt now a (Message (message_updated_event i))) =
         removeStreamingIndicator (currentMessageEl a)) \<and>
    (info_role i = Some ''assistant'' \<and> \<not> truthy (info_finish i) \<longrightarrow>
       onmessage rt now a (Message (message_updated_event i)) = a)"
  by (simp add: message_updated_step [OF assms] message_updated_emits stopStreaming_def
      cleanupAfterMessage_def show_send_buttons_def)

theorem message_updated_effect_witness:
  "eventStream streaming_app = Some \<lparr>es_connected = False, es_activeSubagents = []\<rparr> \<and>
   onmessage sample_runtime 0 streaming_app
     (Message (message_updated_event (sample_info ''user'' (JStr ''stop'')))) = streaming_app \<and>
   isStreaming (onmessage sample_runtime 0 streaming_app
     (Message (message_updated_event (sample_info ''assistant'' (JStr ''tool-calls''))))) \<and>
   \<not> isStreaming (onmessage sample_runtime 0 streaming_app
     (Message (message_updated_event (sample_info ''assistant'' (JStr ''stop''))))) \<and>
   currentMessageEl (onmessage sample_runtime 0 streaming_app
     (Message (message_updated_event (sample_info ''assistant'' (JStr ''stop''))))) = Some [] \<and>
   onmessage sample_runtime 0 streaming_app
     (Message (message_updated_event (sample_info ''assistant'' JNull))) = streaming_app"
proof -
  have s: "eventStream streaming_app = Some \<lparr>es_connected = False, es_activeSubagents = []\<rparr>"
    by (simp add: streaming_app_eval)
  from message_updated_effect [OF s, of "sample_info ''assistant'' JNull" sample_runtime 0]
  have n: "onmessage sample_runtime 0 streaming_app
     (Message (message_updated_event (sample_info ''assistant'' JNull))) = streaming_app"
    by (simp add: sample_info_def)
  from message_updated_effect [OF s, of "sample_info ''user'' (JStr ''stop'')" sample_runtime 0]
       message_updated_effect [OF s, of "sample_info ''assistant'' (JStr ''tool-calls'')" sample_runtime 0]
       message_updated_effect [OF s, of "sample_info ''assistant'' (JStr ''stop'')" sample_runtime 0]
  show ?thesis
    using s n
    by (simp add: sample_info_def streaming_app_eval removeStreamingIndicator_def idle_app_def
        initial_app_def)
qed

text \<open>
  C2 as stated fails: the finish value \<^verbatim>\<open>""\<close> is not \<^verbatim>\<open>null\<close>, and an assistant info
  with it emits no signal and leaves the message streaming.
\<close>

theorem empty_finish_not_complete:
  "info_finish (sample_info ''assistant'' (JStr [])) \<noteq> JNull \<and>
   info_finish (sample_info ''assistant'' (JStr [])) \<noteq> JUndefined \<and>
   isStreaming (onmessage sample_runtime 0 streaming_app
     (Message (message_updated_event (sample_info ''assistant'' (JStr []))))) \<and>
   handleEvent \<lparr>es_connected = False, es_activeSubagents = []\<rparr> 0
     (message_updated_event (sample_info ''assistant'' (JStr []))) =
       Inr ([], \<lparr>es_connected = False, es_activeSubagents = []\<rparr>)"
proof -
  have s: "eventStream streaming_app = Some \<lparr>es_connected = False, es_activeSubagents = []\<rparr>"
    by (simp add: streaming_app_eval)
  have "onmessage sample_runtime 0 streaming_app
          (Message (message_updated_event (sample_info ''assistant'' (JStr [])))) = streaming_app"
    by (simp add: message_updated_step [OF s] sample_info_def)
  then show ?thesis
    by (simp add: message_updated_emits sample_info_def streaming_app_eval)
qed

text \<open>
  C9. When the send request fails with an error whose text holds \<^verbatim>\<open>504\<close>: if the
  application holds a stream (so in particular when the stream is open and alive), the
  state is left as it is: no toast, streaming still on; the failure is reported (a toast,
  streaming stopped, status ready) only when the application holds no stream. After the
  steps of \<^verbatim>\<open>sendMessage\<close> that precede the request, the application holds a stream and
  streaming is on, so there a 504 is not reported.
\<close>

theorem timeout_with_live_stream:
  assumes "str_includes err ''504''"
  shows
   "(eventStream a \<noteq> None \<longrightarrow> sendMessage_result rt a (Rejected err) = a) \<and>
    (eventStream a = None \<longrightarrow>
       toasts (sendMessage_result rt a (Rejected err)) = toasts a @ [Toast_send_failed] \<and>
       \<not> isStreaming (sendMessage_result rt a (Rejected err)) \<and>
       stopBtn_hidden (sendMessage_result rt a (Rejected err)) \<and>
       status (sendMessage_result rt a (Rejected err)) = Status_ready) \<and>
    (currentProject a0 \<noteq> None \<and> sendMessage_compose a0 from_input text files = Go a u \<longrightarrow>
       isStreaming a \<and> eventStream a \<noteq> None \<and> sendMessage_result rt a (Rejected err) = a)"
  using assms
  by (auto simp: sendMessage_result_def send_failed_def stopStreaming_def show_send_buttons_def
      sendMessage_compose_def Let_def connectEventStream_def show_stop_button_def
      startAssistantMessage_def split: if_splits)

theorem timeout_with_live_stream_witness:
  "str_includes ''Error: HTTP 504: Gateway Time-out'' ''504'' \<and>
   eventStream streaming_app \<noteq> None \<and>
   sendMessage_result sample_runtime streaming_app (Rejected ''Error: HTTP 504: Gateway Time-out'')
     = streaming_app \<and>
   isStreaming streaming_app \<and>
   eventStream (stopStreaming streaming_app) = None \<and>
   toasts (sendMessage_result sample_runtime (stopStreaming streaming_app)
             (Rejected ''Error: HTTP 504: Gateway Time-out'')) = [Toast_send_failed] \<and>
   currentProject idle_app \<noteq> None \<and>
   sendMessage_compose idle_app False ''hello'' [] = Go streaming_app ()"
proof -
  have h: "str_includes ''Error: HTTP 504: Gateway Time-out'' ''504''"
    by simp
  have s: "eventStream (stopStreaming streaming_app) = None" "toasts (stopStreaming streaming_app) = []"
    "currentProject idle_app \<noteq> None"
    by (simp_all add: streaming_app_eval stopStreaming_def show_send_buttons_def idle_app_def
        initial_app_def)
  from timeout_with_live_stream [OF h, of streaming_app sample_runtime idle_app False
      "''hello''" "[]" "()"]
    s(3) compose_idle
  have c: "isStreaming streaming_app" "eventStream streaming_app \<noteq> None"
    "sendMessage_result sample_runtime streaming_app (Rejected ''Error: HTTP 504: Gateway Time-out'')
       = streaming_app"
    by simp_all
  from timeout_with_live_stream [OF h, where a = "stopStreaming streaming_app"
      and rt = sample_runtime] s
  have "toasts (sendMessage_result sample_runtime (stopStreaming streaming_app)
             (Rejected ''Error: HTTP 504: Gateway Time-out'')) = [Toast_send_failed]"
    by simp
  with h s c compose_idle show ?thesis by simp
qed

text \<open>
  C7, as the code has it. Abort does nothing when no session or no project is selected.
  Otherwise, whether the request to the server succeeds or throws, afterwards streaming is
  off, the stream is dropped, the stop button is hidden, the send buttons are shown and the
  status is ready; a toast is shown exactly when the request succeeded. A second abort
  whose request throws changes nothing any more.
\<close>

theorem abort_fail_open:
  "(\<not> truthy_str (currentSession a) \<or> currentProject a = None \<longrightarrow> abortMessage a r = a) \<and>
   (truthy_str (currentSession a) \<and> currentProject a \<noteq> None \<longrightarrow>
      \<not> isStreaming (abortMessage a r) \<and>
      eventStream (abortMessage a r) = None \<and>
      stopBtn_hidden (abortMessage a r) \<and>
      sendBtn_hidden (abortMessage a r) \<noteq> Some True \<and>
      sendIconBtn_hidden (abortMessage a r) \<noteq> Some True \<and>
      status (abortMessage a r) = Status_ready \<and>
      toasts (abortMessage a r) =
        toasts a @ (case r of Resolved v \<Rightarrow> [Toast_stopped] | Rejected e \<Rightarrow> [])) \<and>
   abortMessage (abortMessage a r) (Rejected e') = abortMessage a r"
  by (cases r)
     (auto simp: abortMessage_def abortMessage_finish_def stopStreaming_def show_send_buttons_def
       option.map_comp comp_def split: option.splits)

theorem abort_fail_open_witness:
  "truthy_str (currentSession streaming_app) \<and> currentProject streaming_app \<noteq> None \<and>
   isStreaming streaming_app \<and>
   \<not> isStreaming (abortMessage streaming_app (Rejected ''TypeError: Failed to fetch'')) \<and>
   eventStream (abortMessage streaming_app (Rejected ''TypeError: Failed to fetch'')) = None \<and>
   status (abortMessage streaming_app (Rejected ''TypeError: Failed to fetch'')) = Status_ready \<and>
   toasts (abortMessage streaming_app (Rejected ''TypeError: Failed to fetch'')) = [] \<and>
   abortMessage (initial_app\<lparr>isStreaming := True\<rparr>) (Resolved JNull) = initial_app\<lparr>isStreaming := True\<rparr>"
proof -
  have h: "truthy_str (currentSession streaming_app)" "currentProject streaming_app \<noteq> None"
    "isStreaming streaming_app" "toasts streaming_app = []"
    "currentProject (initial_app\<lparr>isStreaming := True\<rparr>) = None"
    by (simp_all add: streaming_app_eval idle_app_def initial_app_def truthy_str_def)
  from abort_fail_open [of streaming_app "Rejected ''TypeError: Failed to fetch''"]
       abort_fail_open [of "initial_app\<lparr>isStreaming := True\<rparr>" "Resolved JNull"]
  show ?thesis using h by simp
qed

text \<open>
  C7 as stated fails: with a session selected and no stream active, an abort whose request
  succeeds is not a no-op, it shows the toast that generation was stopped.
\<close>

theorem abort_without_stream_not_noop:
  "eventStream idle_app = None \<and> \<not> isStreaming idle_app \<and>
   toasts idle_app = [] \<and> toasts (abortMessage idle_app (Resolved JNull)) = [Toast_stopped]"
  by (simp add: abortMessage_def abortMessage_finish_def stopStreaming_def show_send_buttons_def
      idle_app_def initial_app_def truthy_str_def)

text \<open>
  C8 at the input where the code departs from it. The formatter returns one entry per
  question, in the order of the questions, and the entry of a question whose key the answers
  object neither owns nor inherits is the empty list (\<open>reply_format_own_keys\<close>). But
  \<^verbatim>\<open>answers[questionKey]\<close> also reads what every object inherits: for the answers object
  \<^verbatim>\<open>{}\<close> and one question with the header \<^verbatim>\<open>constructor\<close>, whose key is missing from the
  answers object, the entry is not the empty list of the \<^verbatim>\<open>// No answer\<close> branch but the
  text of the inherited constructor, and that is what the reply request is sent with.
\<close>

theorem inherited_key_not_empty:
  "map_of ([] :: (string \<times> jsval) list) (questionKey constructor_question 0) = None \<and>
   formatAnswers rt [] (Some [constructor_question]) =
     [[JStr (String_inherited rt ''constructor'')]] \<and>
   formatAnswers rt [] (Some [constructor_question]) ! 0 \<noteq> [] \<and>
   (\<exists>a'. submitQuestionnaire_begin rt asked_app [] (Some [constructor_question]) =
           Submit_reply a' [[JStr (String_inherited rt ''constructor'')]])"
proof -
  have k: "questionKey constructor_question 0 = ''constructor''"
    by (simp add: questionKey_def constructor_question_def truthy_str_def)
  have e: "format_entry rt [] ''constructor'' = [JStr (String_inherited rt ''constructor'')]"
    by (rule format_entry_inherited) (simp_all add: object_prototype_names_def)
  have f: "formatAnswers rt [] (Some [constructor_question]) =
             [[JStr (String_inherited rt ''constructor'')]]"
    by (simp add: formatAnswers_def k e)
  have q: "truthy_str (pendingQuestionRequestId asked_app)" "currentProject asked_app \<noteq> None"
    by (simp_all add: asked_app_eval streaming_app_eval idle_app_def initial_app_def truthy_str_def)
  then have "\<exists>a'. submitQuestionnaire_begin rt asked_app [] (Some [constructor_question]) =
                  Submit_reply a' (formatAnswers rt [] (Some [constructor_question]))"
    by (auto simp: submitQuestionnaire_begin_def setInputQuestionMode_def Let_def
        format_throws_def split: option.splits)
  with f show ?thesis
    by simp
qed

text \<open>
  C6, as the code has it. The application keeps two things: the request id of the pending
  question and the question mode of the input box. A \<^verbatim>\<open>question.asked\<close> event on a
  current message stores its id and, when it carries questions, turns question mode on.
  Submitting the questionnaire turns question mode off and, when a request id is pending
  and a project selected, clears the id once the reply request has settled. Sending a
  message turns question mode off and leaves the stored request id as it is. (On a page
  without the input box question mode is never switched.)
\<close>

theorem question_state_updates:
  "(currentMessageEl a \<noteq> None \<longrightarrow>
      pendingQuestionRequestId (handleStreamEvent rt now a (Ev_question_asked (Some pr))) = prop_id pr \<and>
      (prop_questions pr \<noteq> None \<and> messageInput a \<noteq> None \<longrightarrow>
         isQuestionPending (handleStreamEvent rt now a (Ev_question_asked (Some pr))))) \<and>
   (messageInput a \<noteq> None \<longrightarrow>
      \<not> isQuestionPending (submitQuestionnaire rt a answers questions created reply result)) \<and>
   (truthy_str (pendingQuestionRequestId a) \<and> currentProject a \<noteq> None \<longrightarrow>
      pendingQuestionRequestId (submitQuestionnaire rt a answers questions created reply result) = None) \<and>
   pendingQuestionRequestId (sendMessage rt a content atts created reply) = pendingQuestionRequestId a \<and>
   (currentProject a \<noteq> None \<and> messageInput a \<noteq> None \<longrightarrow>
      \<not> isQuestionPending (sendMessage rt a content atts created reply))"
  using question_asked_state [of a rt now pr]
    submit_question_state [of a rt answers questions created reply result]
    sendMessage_question_state [of rt a content atts created reply]
  by blast

theorem question_state_updates_witness:
  "currentMessageEl streaming_app \<noteq> None \<and> messageInput streaming_app \<noteq> None \<and>
   pendingQuestionRequestId (handleStreamEvent sample_runtime 0 streaming_app
      (Ev_question_asked (Some (no_properties\<lparr>prop_id := Some ''que_1'',
                                                prop_questions := Some sample_questions\<rparr>))))
     = Some ''que_1'' \<and>
   isQuestionPending (handleStreamEvent sample_runtime 0 streaming_app
      (Ev_question_asked (Some (no_properties\<lparr>prop_id := Some ''que_1'',
                                                prop_questions := Some sample_questions\<rparr>)))) \<and>
   truthy_str (pendingQuestionRequestId asked_app) \<and> currentProject asked_app \<noteq> None \<and>
   pendingQuestionRequestId (submitQuestionnaire sample_runtime asked_app [(''Hero'', JStr ''Cat'')]
      (Some sample_questions) (Resolved None) (Resolved None) (Resolved JNull)) = None \<and>
   \<not> isQuestionPending (submitQuestionnaire sample_runtime asked_app [(''Hero'', JStr ''Cat'')]
      (Some sample_questions) (Resolved None) (Resolved None) (Resolved JNull)) \<and>
   \<not> isQuestionPending (sendMessage sample_runtime asked_app (Some ''never mind'') None
      (Resolved None) (Resolved None))"
proof -
  have h: "currentMessageEl streaming_app \<noteq> None" "messageInput streaming_app \<noteq> None"
    "truthy_str (pendingQuestionRequestId asked_app)" "currentProject asked_app \<noteq> None"
    "messageInput asked_app \<noteq> None"
    by (simp_all add: asked_app_eval streaming_app_eval idle_app_def initial_app_def truthy_str_def)
  let ?pr = "no_properties\<lparr>prop_id := Some ''que_1'', prop_questions := Some sample_questions\<rparr>"
  from question_state_updates [of streaming_app sample_runtime 0 ?pr]
       question_state_updates [of asked_app sample_runtime 0 ?pr "[(''Hero'', JStr ''Cat'')]"
         "Some sample_questions" "Resolved None" "Resolved None" "Resolved JNull"
         "Some ''never mind''" None]
  show ?thesis using h by (simp add: no_properties_def)
qed

text \<open>
  C6 as stated fails: after a question was asked and the user sends a typed message
  instead of answering, question mode is off while the stored request id is still there.
\<close>

theorem send_keeps_request_id:
  "isQuestionPending typed_app \<and> pendingQuestionRequestId typed_app = Some ''que_1'' \<and>
   \<not> isQuestionPending (sendMessage sample_runtime typed_app None None
        (Resolved (Some (Some ''ses_1''))) (Resolved None)) \<and>
   pendingQuestionRequestId (sendMessage sample_runtime typed_app None None
        (Resolved (Some (Some ''ses_1''))) (Resolved None)) = Some ''que_1''"
proof -
  have t: "isQuestionPending typed_app" "pendingQuestionRequestId typed_app = Some ''que_1''"
    "currentProject typed_app \<noteq> None" "messageInput typed_app \<noteq> None"
    by (simp_all add: typed_app_def asked_app_eval streaming_app_eval idle_app_def initial_app_def)
  from sendMessage_question_state [of sample_runtime typed_app None None
         "Resolved (Some (Some ''ses_1''))" "Resolved None"] t
  show ?thesis by simp
qed





text \<open>
  C4, as the code has it. Take an event that the decoder routes to sub-agent handling,
  received on an open stream. If its output is truthy and not a string,
  \<^verbatim>\<open>parseTaskOutput\<close> throws and the event changes nothing, a tracked id stays tracked.
  If its status is one of pending, running, completed, failed and its sub-agent type is a
  value that \<^verbatim>\<open>String\<close> cannot convert, the log line throws after the decoder has
  stored the id: the decoder tracks the id and nothing reaches the application. Otherwise
  the decoder hands the event on under the id of its part (never an empty one), and a
  completed or failed event removes this id from the tracking map of the decoder and from
  that of the application. When such an event arrives for an id that the application does
  not track (as after a completed or failed event), the panels made so far stay as they
  are, and: without a current message no panel is added and nothing is tracked; with one, a
  pending or running event adds a new panel and tracks it under the id, a completed or
  failed event adds a new panel and tracks nothing, and an event with any other status
  adds and tracks nothing.
\<close>

theorem subagent_lifecycle:
  assumes "eventStream a = Some es" and "subagent_part ev = Some p"
  shows
    "(parseTaskOutput_throws (st_output (state_of p)) \<longrightarrow> onmessage rt now a (Message ev) = a) \<and>
     (\<not> parseTaskOutput_throws (st_output (state_of p)) \<and>
      lifecycle_of (st_status (state_of p)) \<noteq> Update \<and>
      string_throws (sd_subagentType (subagent_data now p ev)) \<longrightarrow>
        onmessage rt now a (Message ev) =
          a\<lparr>eventStream :=
              Some (es\<lparr>es_activeSubagents :=
                          AList.update (fallback_id ''subagent-'' (part_id p) now)
                            (subagent_data now p ev) (es_activeSubagents es)\<rparr>)\<rparr>) \<and>
     (\<not> parseTaskOutput_throws (st_output (state_of p)) \<and>
      (lifecycle_of (st_status (state_of p)) = Update \<or>
       \<not> string_throws (sd_subagentType (subagent_data now p ev))) \<longrightarrow>
        fallback_id ''subagent-'' (part_id p) now \<noteq> [] \<and>
        (\<exists>es'. handleEvent es now ev =
                 Inr ([Ev_subagent (lifecycle_of (st_status (state_of p))) (subagent_data now p ev)],
                      es') \<and>
               sd_id (subagent_data now p ev) = fallback_id ''subagent-'' (part_id p) now \<and>
               eventStream (onmessage rt now a (Message ev)) = Some es' \<and>
               (terminal (lifecycle_of (st_status (state_of p))) \<longrightarrow>
                  map_of (es_activeSubagents es') (fallback_id ''subagent-'' (part_id p) now) = None)) \<and>
        (terminal (lifecycle_of (st_status (state_of p))) \<longrightarrow>
           map_of (activeSubagents (onmessage rt now a (Message ev)))
             (fallback_id ''subagent-'' (part_id p) now) = None) \<and>
        (map_of (activeSubagents a) (fallback_id ''subagent-'' (part_id p) now) = None \<longrightarrow>
           (currentMessageEl a = None \<longrightarrow>
              panels (onmessage rt now a (Message ev)) = panels a \<and>
              map_of (activeSubagents (onmessage rt now a (Message ev)))
                (fallback_id ''subagent-'' (part_id p) now) = None) \<and>
           (currentMessageEl a \<noteq> None \<and> lifecycle_of (st_status (state_of p)) = Update \<longrightarrow>
              panels (onmessage rt now a (Message ev)) = panels a \<and>
              activeSubagents (onmessage rt now a (Message ev)) = activeSubagents a \<and>
              currentMessageEl (onmessage rt now a (Message ev)) = currentMessageEl a) \<and>
           (currentMessageEl a \<noteq> None \<and> lifecycle_of (st_status (state_of p)) \<noteq> Update \<longrightarrow>
              panels (onmessage rt now a (Message ev)) =
                panels a @ [new_panel (subagent_data now p ev)] \<and>
              map_of (activeSubagents (onmessage rt now a (Message ev)))
                (fallback_id ''subagent-'' (part_id p) now) =
                (if terminal (lifecycle_of (st_status (state_of p))) then None
                 else Some (length (panels a))))))"
proof -
  let ?i = "fallback_id ''subagent-'' (part_id p) now"
  let ?k = "lifecycle_of (st_status (state_of p))"
  let ?D = "subagent_data now p ev"
  let ?A = "onmessage rt now a (Message ev)"
  have thr: "?A = a" if "parseTaskOutput_throws (st_output (state_of p))"
    using assms that by (simp add: onmessage_def decoder_subagent_throws)
  have log: "?A = a\<lparr>eventStream :=
                     Some (es\<lparr>es_activeSubagents := AList.update ?i ?D (es_activeSubagents es)\<rparr>)\<rparr>"
    if "\<not> parseTaskOutput_throws (st_output (state_of p))" "?k \<noteq> Update"
      "string_throws (sd_subagentType ?D)"
    using assms(1) decoder_subagent_log_throws [OF assms(2) that, of es]
    by (simp add: onmessage_def)
  have main:
    "?i \<noteq> [] \<and>
     (\<exists>es'. handleEvent es now ev = Inr ([Ev_subagent ?k ?D], es') \<and> sd_id ?D = ?i \<and>
            eventStream ?A = Some es' \<and>
            (terminal ?k \<longrightarrow> map_of (es_activeSubagents es') ?i = None)) \<and>
     (terminal ?k \<longrightarrow> map_of (activeSubagents ?A) ?i = None) \<and>
     (map_of (activeSubagents a) ?i = None \<longrightarrow>
        (currentMessageEl a = None \<longrightarrow>
           panels ?A = panels a \<and> map_of (activeSubagents ?A) ?i = None) \<and>
        (currentMessageEl a \<noteq> None \<and> ?k = Update \<longrightarrow>
           panels ?A = panels a \<and> activeSubagents ?A = activeSubagents a \<and>
           currentMessageEl ?A = currentMessageEl a) \<and>
        (currentMessageEl a \<noteq> None \<and> ?k \<noteq> Update \<longrightarrow>
           panels ?A = panels a @ [new_panel ?D] \<and>
           map_of (activeSubagents ?A) ?i = (if terminal ?k then None else Some (length (panels a)))))"
    if nt: "\<not> parseTaskOutput_throws (st_output (state_of p))"
      and ns: "?k = Update \<or> \<not> string_throws (sd_subagentType ?D)"
  proof -
    from decoder_subagent [OF assms(2) nt ns, of es] obtain es' where
      d: "handleEvent es now ev = Inr ([Ev_subagent ?k ?D], es')" and
      t: "terminal ?k \<longrightarrow> map_of (es_activeSubagents es') ?i = None"
      by blast
    let ?b = "a\<lparr>eventStream := Some es'\<rparr>"
    from assms(1) d have A: "?A = handleStreamEvent rt now ?b (Ev_subagent ?k ?D)"
      by (simp add: onmessage_def)
    have i: "sd_id ?D = ?i"
      by (simp add: subagent_data_fields)
    have ne: "?i \<noteq> []"
      by (simp add: fallback_id_nonempty)
    have st: "eventStream ?A = Some es'"
      by (simp add: A subagent_keeps_stream)
    have tm: "map_of (activeSubagents ?A) ?i = None" if "terminal ?k"
      using app_terminal_untracked [OF that, of rt now ?b ?D] by (simp add: A i)
    have nm: "panels ?A = panels a \<and> map_of (activeSubagents ?A) ?i = None"
      if "map_of (activeSubagents a) ?i = None" "currentMessageEl a = None"
      using app_no_message [of ?b ?D rt now ?k] that by (simp add: A i)
    have lt: "(?k = Update \<longrightarrow> ?A = ?b) \<and>
              (?k \<noteq> Update \<longrightarrow>
                 panels ?A = panels a @ [new_panel ?D] \<and>
                 map_of (activeSubagents ?A) ?i =
                   (if terminal ?k then None else Some (length (panels a))))"
      if "map_of (activeSubagents a) ?i = None" "currentMessageEl a \<noteq> None"
      using app_later_event [of ?b ?D ?k rt now] that ne by (simp add: A i)
    have up: "panels ?A = panels a \<and> activeSubagents ?A = activeSubagents a \<and>
              currentMessageEl ?A = currentMessageEl a"
      if "map_of (activeSubagents a) ?i = None" "currentMessageEl a \<noteq> None" "?k = Update"
    proof -
      from lt [OF that(1,2)] that(3) have "?A = ?b" by blast
      then show ?thesis by simp
    qed
    have dec: "\<exists>es'. handleEvent es now ev = Inr ([Ev_subagent ?k ?D], es') \<and> sd_id ?D = ?i \<and>
                 eventStream ?A = Some es' \<and>
                 (terminal ?k \<longrightarrow> map_of (es_activeSubagents es') ?i = None)"
      using d i st t by blast
    from ne dec tm nm lt up show ?thesis
      by blast
  qed
  from thr log main show ?thesis
    by blast
qed

theorem subagent_lifecycle_witness:
  "eventStream running_app =
     Some \<lparr>es_connected = False,
            es_activeSubagents = [(''a1'', task_data ''a1'' (Some ''running''))]\<rparr> \<and>
   subagent_part (tool_event ''a1'' ''task'' (task_state ''completed'')) =
     Some (tool_part ''a1'' ''task'' (task_state ''completed'')) \<and>
   \<not> parseTaskOutput_throws (st_output (task_state ''completed'')) \<and>
   map_of (activeSubagents running_app) ''a1'' = Some 0 \<and>
   map_of (activeSubagents
      (onmessage sample_runtime 2 running_app
         (Message (tool_event ''a1'' ''task'' (task_state ''completed''))))) ''a1'' = None \<and>
   (\<exists>es'. eventStream
            (onmessage sample_runtime 2 running_app
               (Message (tool_event ''a1'' ''task'' (task_state ''completed'')))) = Some es' \<and>
          map_of (es_activeSubagents es') ''a1'' = None) \<and>
   map_of (activeSubagents completed_app) ''a1'' = None \<and>
   currentMessageEl completed_app \<noteq> None \<and>
   map pn_status (panels
      (onmessage sample_runtime 5 completed_app
         (Message (tool_event ''a1'' ''task'' (task_state ''running''))))) =
     [Some ''completed'', Some ''running''] \<and>
   map_of (activeSubagents
      (onmessage sample_runtime 5 completed_app
         (Message (tool_event ''a1'' ''task'' (task_state ''running''))))) ''a1'' = Some 1 \<and>
   panels (onmessage sample_runtime 7 completed_app
      (Message (tool_event ''a1'' ''task'' (task_state ''cancelled'')))) = panels completed_app \<and>
   activeSubagents (onmessage sample_runtime 7 completed_app
      (Message (tool_event ''a1'' ''task'' (task_state ''cancelled'')))) = [] \<and>
   parseTaskOutput_throws (st_output object_output_state) \<and>
   onmessage sample_runtime 2 running_app
      (Message (tool_event ''a1'' ''task'' object_output_state)) = running_app \<and>
   string_throws (sd_subagentType
      (subagent_data 5 (tool_part ''a1'' ''task'' unprintable_type_state)
         (tool_event ''a1'' ''task'' unprintable_type_state))) \<and>
   panels (onmessage sample_runtime 5 completed_app
      (Message (tool_event ''a1'' ''task'' unprintable_type_state))) = panels completed_app \<and>
   activeSubagents (onmessage sample_runtime 5 completed_app
      (Message (tool_event ''a1'' ''task'' unprintable_type_state))) = [] \<and>
   (\<exists>es'. eventStream (onmessage sample_runtime 5 completed_app
             (Message (tool_event ''a1'' ''task'' unprintable_type_state))) = Some es' \<and>
          map_of (es_activeSubagents es') ''a1'' \<noteq> None) \<and>
   panels (onmessage sample_runtime 5 (completed_app\<lparr>currentMessageEl := None\<rparr>)
      (Message (tool_event ''a1'' ''task'' (task_state ''running'')))) = panels completed_app \<and>
   map_of (activeSubagents
      (onmessage sample_runtime 5 (completed_app\<lparr>currentMessageEl := None\<rparr>)
         (Message (tool_event ''a1'' ''task'' (task_state ''running''))))) ''a1'' = None"
proof -
  let ?ev = "\<lambda>st. tool_event ''a1'' ''task'' st"
  let ?p = "\<lambda>st. tool_part ''a1'' ''task'' st"
  let ?es = "\<lparr>es_connected = False,
              es_activeSubagents = [(''a1'', task_data ''a1'' (Some ''running''))]\<rparr>"
  let ?nomsg = "completed_app\<lparr>currentMessageEl := None\<rparr>"
  have r: "eventStream running_app = Some ?es" "map_of (activeSubagents running_app) ''a1'' = Some 0"
    by (simp_all add: running_app_eval)
  have c: "eventStream completed_app = Some \<lparr>es_connected = False, es_activeSubagents = []\<rparr>"
    "map_of (activeSubagents completed_app) ''a1'' = None" "currentMessageEl completed_app \<noteq> None"
    "activeSubagents completed_app = []"
    "panels completed_app = [\<lparr>pn_id = Some ''a1'', pn_status = Some ''completed'',
                 pn_subagentType = JStr ''explore'', pn_description = JStr ''Find sprites''\<rparr>]"
    by (simp_all add: completed_app_eval streaming_app_eval idle_app_def initial_app_def)
  have n: "eventStream ?nomsg = Some \<lparr>es_connected = False, es_activeSubagents = []\<rparr>"
    "map_of (activeSubagents ?nomsg) ''a1'' = None" "currentMessageEl ?nomsg = None"
    "panels ?nomsg = panels completed_app"
    by (simp_all add: c)
  have f: "state_of (?p st) = st" "fallback_id ''subagent-'' (part_id (?p st)) now = ''a1''" for st now
    by (simp_all add: tool_part_fields)
  have o: "\<not> parseTaskOutput_throws (st_output (task_state st))"
    "parseTaskOutput_throws (st_output object_output_state)"
    "\<not> parseTaskOutput_throws (st_output unprintable_type_state)" for st
    by (simp_all add: parseTaskOutput_throws_def task_state_def object_output_state_def
        unprintable_type_state_def)
  have ty: "\<not> string_throws (sd_subagentType (subagent_data now (?p (task_state st)) (?ev (task_state st))))"
    "string_throws (sd_subagentType (subagent_data now (?p unprintable_type_state) (?ev unprintable_type_state)))"
    for st now
    by (simp_all add: subagent_data_def tool_part_fields tool_event_def plain_event_def
        task_state_def unprintable_type_state_def unprintable_def js_or_def Let_def)
  have ku: "lifecycle_of (st_status unprintable_type_state) = Running"
    by (simp add: unprintable_type_state_def task_state_def lifecycle_of_def)
  have k: "lifecycle_of (st_status (task_state ''completed'')) = Completed"
    "lifecycle_of (st_status (task_state ''running'')) = Running"
    "lifecycle_of (st_status (task_state ''cancelled'')) = Update"
    by (simp_all add: task_state_def lifecycle_of_def)
  have t: "terminal Completed" "\<not> terminal Running"
    by (simp_all add: terminal_def)
  note sp = subagent_part_task
  from subagent_lifecycle [OF r(1) sp [of "''a1''" "task_state ''completed''"], where rt = sample_runtime and now = 2]
  have 1: "map_of (activeSubagents (onmessage sample_runtime 2 running_app (Message (?ev (task_state ''completed''))))) ''a1'' = None"
    "\<exists>es'. eventStream (onmessage sample_runtime 2 running_app
              (Message (?ev (task_state ''completed'')))) = Some es' \<and>
           map_of (es_activeSubagents es') ''a1'' = None"
    unfolding f k using o(1) t(1) ty(1) by blast+
  from subagent_lifecycle [OF c(1) sp [of "''a1''" "task_state ''running''"], where rt = sample_runtime and now = 5]
  have 2: "panels (onmessage sample_runtime 5 completed_app (Message (?ev (task_state ''running'')))) =
             panels completed_app @
               [new_panel (subagent_data 5 (?p (task_state ''running'')) (?ev (task_state ''running'')))]"
    "map_of (activeSubagents (onmessage sample_runtime 5 completed_app
        (Message (?ev (task_state ''running''))))) ''a1'' = Some (length (panels completed_app))"
    unfolding f k using o(1) [of "''running''"] t(2) c(2,3) ty(1) by simp_all
  have st2: "pn_status (new_panel (subagent_data 5 (?p (task_state ''running'')) (?ev (task_state ''running'')))) =
              Some ''running''"
    by (simp add: new_panel_def subagent_data_fields f task_state_def)
  from subagent_lifecycle [OF c(1) sp [of "''a1''" "task_state ''cancelled''"], where rt = sample_runtime and now = 7]
  have 3: "panels (onmessage sample_runtime 7 completed_app (Message (?ev (task_state ''cancelled'')))) =
             panels completed_app"
    "activeSubagents (onmessage sample_runtime 7 completed_app
        (Message (?ev (task_state ''cancelled'')))) = activeSubagents completed_app"
    unfolding f k using o(1) [of "''cancelled''"] c(2,3) by simp_all
  from subagent_lifecycle [OF r(1) sp [of "''a1''" object_output_state], where rt = sample_runtime and now = 2]
  have 4: "onmessage sample_runtime 2 running_app (Message (?ev object_output_state)) = running_app"
    unfolding f using o(2) by blast
  from subagent_lifecycle [OF n(1) sp [of "''a1''" "task_state ''running''"], where rt = sample_runtime and now = 5]
  have 5: "panels (onmessage sample_runtime 5 ?nomsg (Message (?ev (task_state ''running'')))) =
             panels ?nomsg"
    "map_of (activeSubagents (onmessage sample_runtime 5 ?nomsg
        (Message (?ev (task_state ''running''))))) ''a1'' = None"
    unfolding f k using o(1) [of "''running''"] n(2,3) ty(1) by simp_all
  from subagent_lifecycle [OF c(1) sp [of "''a1''" unprintable_type_state], where rt = sample_runtime and now = 5]
  have 6: "onmessage sample_runtime 5 completed_app (Message (?ev unprintable_type_state)) =
             completed_app\<lparr>eventStream :=
               Some (\<lparr>es_connected = False, es_activeSubagents = []\<rparr>
                       \<lparr>es_activeSubagents :=
                          AList.update ''a1''
                            (subagent_data 5 (?p unprintable_type_state) (?ev unprintable_type_state))
                            (es_activeSubagents \<lparr>es_connected = False, es_activeSubagents = []\<rparr>)\<rparr>)\<rparr>"
    unfolding f ku using o(3) ty(2) by simp
  have 7: "panels (onmessage sample_runtime 5 completed_app (Message (?ev unprintable_type_state))) =
             panels completed_app"
    "activeSubagents (onmessage sample_runtime 5 completed_app
        (Message (?ev unprintable_type_state))) = []"
    "\<exists>es'. eventStream (onmessage sample_runtime 5 completed_app
              (Message (?ev unprintable_type_state))) = Some es' \<and>
           map_of (es_activeSubagents es') ''a1'' \<noteq> None"
    unfolding 6 by (simp_all add: c(4))
  from r sp o(1,2) 1 c 2 st2 3 4 5 n(4) ty(2) 7 show ?thesis
    by simp
qed

text \<open>
  C4 as stated fails. After pending, running and completed events for the id \<^verbatim>\<open>a1\<close>, an
  event for the same id with another status (here \<^verbatim>\<open>cancelled\<close>) adds no panel and tracks
  nothing in the application: it is not treated as a new tracked task.
\<close>

theorem later_events_not_tracked:
  "activeSubagents (run_frames sample_runtime streaming_app
     [(0, Message (tool_event ''a1'' ''task'' (task_state ''pending''))),
      (1, Message (tool_event ''a1'' ''task'' (task_state ''running''))),
      (2, Message (tool_event ''a1'' ''task'' (task_state ''completed''))),
      (3, Message (tool_event ''a1'' ''task'' (task_state ''cancelled'')))]) = [] \<and>
   map pn_status (panels (run_frames sample_runtime streaming_app
     [(0, Message (tool_event ''a1'' ''task'' (task_state ''pending''))),
      (1, Message (tool_event ''a1'' ''task'' (task_state ''running''))),
      (2, Message (tool_event ''a1'' ''task'' (task_state ''completed''))),
      (3, Message (tool_event ''a1'' ''task'' (task_state ''cancelled'')))]))
     = [Some ''completed'']"
  by (simp add: task_run_defs)

section \<open>A remark on question tool calls\<close>

text \<open>
  A question tool call that carries questions is rendered as a questionnaire, which does
  not receive the id of the call: the search for an element with that id finds nothing the
  second time either, and the same event twice leaves two questionnaires.
\<close>

lemma question_tool_event_twice:
  "currentMessageEl
     (handleStreamEvent sample_runtime 1
        (handleStreamEvent sample_runtime 0 streaming_app (Ev_tool Running question_tool_data))
        (Ev_tool Running question_tool_data)) =
   Some [Indicator, QuestionnaireNode sample_questions, QuestionnaireNode sample_questions]"
  by (simp add: handleStreamEvent_def handleToolEvent_def querySelector_tool_def plain_id_def
      question_tool_data_def streaming_app_eval)

end
